theory Spec2Isabelle
  imports Main "HOL-Library.Sublist" "HOL-Library.AList"
begin

section \<open>Data model\<close>

text \<open>
  Values exchanged over JSON-RPC. A JSON object is an association list: Python's dict keeps
  insertion order, and the first binding of a key is the one a lookup sees. JSON numbers are
  the integers (the gateway never computes with a number; it only tests one for truth).
\<close>

datatype json =
    JNull
  | JBool bool
  | JInt int
  | JStr string
  | JArr "json list"
  | JObj "(string \<times> json) list"

text \<open>The exceptions the gateway code can meet. \<open>TransportError\<close> stands for whatever
  \<open>http.client\<close> or \<open>json.loads\<close> raise while talking to a worker, with its text.\<close>

datatype error =
    KeyError string
  | TypeError
  | AttributeError
  | IndexError
  | JSONDecodeError
  | TransportError string

text \<open>The value stored in \<open>IDA_INSTANCES\<close> for one worker (the dict built by
  \<open>register_instance\<close>); \<open>IDA_INSTANCES: dict[str, dict]\<close> is the list of its items in
  insertion order.\<close>

record ida_instance =
  host :: string
  port :: int
  path :: string
  module :: string
  md5 :: string
  sha256 :: string
  registered_at :: nat

type_synonym registry = "(string \<times> ida_instance) list"

text \<open>The body of \<open>POST /register\<close>: each key may be missing, \<open>data.get(key, default)\<close>
  then supplies the default. The values have the types of the instance record (strings, and
  an integer port), which is what the plugin's \<open>register_with_main_server\<close> sends and what
  \<open>IDA_INSTANCES: dict[str, dict]\<close> declares for the key.\<close>

record register_data =
  rd_host :: "string option"
  rd_port :: "int option"
  rd_path :: "string option"
  rd_module :: "string option"
  rd_md5 :: "string option"
  rd_sha256 :: "string option"

text \<open>The body of \<open>POST /unregister\<close>.\<close>

record unregister_data =
  ud_binary_id :: "string option"
  ud_sha256 :: "string option"
  ud_md5 :: "string option"

text \<open>The dicts \<open>{"success": True, "binary_id": ...}\<close> and
  \<open>{"success": False, "error": ...}\<close> returned by both registry operations.\<close>

datatype reg_reply = Success string | Failure string

definition get_default :: "'a option \<Rightarrow> 'a \<Rightarrow> 'a" where
  "get_default v d = (case v of None \<Rightarrow> d | Some x \<Rightarrow> x)"

section \<open>Instance registry\<close>

definition register_instance :: "nat \<Rightarrow> register_data \<Rightarrow> registry \<Rightarrow> reg_reply \<times> registry" where
  "register_instance now data reg =
     (let sha = get_default (rd_sha256 data) '''';
          md = get_default (rd_md5 data) '''';
          binary_id = (if sha \<noteq> '''' then sha else md)
      in if binary_id = '''' then (Failure ''No sha256 or md5 provided'', reg)
         else (Success binary_id,
               AList.update binary_id
                 \<lparr> host = get_default (rd_host data) ''127.0.0.1'',
                   port = get_default (rd_port data) 13337,
                   path = get_default (rd_path data) '''',
                   module = get_default (rd_module data) '''',
                   md5 = md,
                   sha256 = sha,
                   registered_at = now \<rparr> reg))"

definition unregister_instance :: "unregister_data \<Rightarrow> registry \<Rightarrow> reg_reply \<times> registry" where
  "unregister_instance data reg =
     (let binary_id = get_default (ud_binary_id data) '''';
          sha = get_default (ud_sha256 data) '''';
          md = get_default (ud_md5 data) '''';
          key_to_remove =
            (if binary_id \<noteq> '''' \<and> binary_id \<in> fst ` set reg then Some binary_id
             else if sha \<noteq> '''' \<and> sha \<in> fst ` set reg then Some sha
             else if md \<noteq> '''' \<and> md \<in> fst ` set reg then Some md
             else None)
      in case key_to_remove of
           Some k \<Rightarrow> (Success k, AList.delete k reg)
         | None \<Rightarrow> (Failure ''Instance not found'', reg))"

text \<open>The two \<open>for instance in IDA_INSTANCES.values()\<close> loops of \<open>find_instance\<close>: the
  first record in iteration order that matches is returned.\<close>

fun first_by_module :: "string \<Rightarrow> registry \<Rightarrow> ida_instance option" where
  "first_by_module b [] = None"
| "first_by_module b (kv # r) = (if module (snd kv) = b then Some (snd kv) else first_by_module b r)"

fun first_by_path :: "string \<Rightarrow> registry \<Rightarrow> ida_instance option" where
  "first_by_path b [] = None"
| "first_by_path b (kv # r) = (if sublist b (path (snd kv)) then Some (snd kv) else first_by_path b r)"

text \<open>
  \<open>find_instance\<close> receives whatever value the request carried. For a string the three tiers
  run. A list or a dict cannot be hashed, so \<open>binary in IDA_INSTANCES\<close> raises; any other
  value is no key and no module name, and \<open>binary in instance.get("path", "")\<close> raises on
  the first record.
\<close>

definition find_instance :: "json \<Rightarrow> registry \<Rightarrow> error + ida_instance option" where
  "find_instance binary reg =
     (case binary of
        JStr b \<Rightarrow>
          Inr (case map_of reg b of
                 Some i \<Rightarrow> Some i
               | None \<Rightarrow>
                   (case first_by_module b reg of
                      Some i \<Rightarrow> Some i
                    | None \<Rightarrow> first_by_path b reg))
      | JArr _ \<Rightarrow> Inl TypeError
      | JObj _ \<Rightarrow> Inl TypeError
      | _ \<Rightarrow> (if reg = [] then Inr None else Inl TypeError))"

definition get_instance_count :: "registry \<Rightarrow> nat" where
  "get_instance_count reg = length reg"

definition get_single_instance :: "registry \<Rightarrow> ida_instance option" where
  "get_single_instance reg = (case reg of [kv] \<Rightarrow> Some (snd kv) | _ \<Rightarrow> None)"

section \<open>Python's dynamic operations on JSON values\<close>

definition bindE :: "error + 'a \<Rightarrow> ('a \<Rightarrow> error + 'b) \<Rightarrow> error + 'b" where
  "bindE m f = (case m of Inl e \<Rightarrow> Inl e | Inr v \<Rightarrow> f v)"

fun mapE :: "('a \<Rightarrow> error + 'b) \<Rightarrow> 'a list \<Rightarrow> error + 'b list" where
  "mapE f [] = Inr []"
| "mapE f (x # xs) = bindE (f x) (\<lambda>y. bindE (mapE f xs) (\<lambda>ys. Inr (y # ys)))"

text \<open>\<open>if v:\<close>\<close>

fun py_truthy :: "json \<Rightarrow> bool" where
  "py_truthy JNull = False"
| "py_truthy (JBool b) = b"
| "py_truthy (JInt n) = (n \<noteq> 0)"
| "py_truthy (JStr s) = (s \<noteq> [])"
| "py_truthy (JArr xs) = (xs \<noteq> [])"
| "py_truthy (JObj kvs) = (kvs \<noteq> [])"

text \<open>\<open>key in v\<close> for a string key: a key of a dict, an element of a list, a substring of a
  string; anything else is not iterable.\<close>

fun py_contains :: "string \<Rightarrow> json \<Rightarrow> error + bool" where
  "py_contains k (JObj kvs) = Inr (map_of kvs k \<noteq> None)"
| "py_contains k (JArr xs) = Inr (JStr k \<in> set xs)"
| "py_contains k (JStr s) = Inr (sublist k s)"
| "py_contains k _ = Inl TypeError"

text \<open>\<open>v[key]\<close> for a string key.\<close>

fun py_getitem :: "json \<Rightarrow> string \<Rightarrow> error + json" where
  "py_getitem (JObj kvs) k = (case map_of kvs k of Some v \<Rightarrow> Inr v | None \<Rightarrow> Inl (KeyError k))"
| "py_getitem _ k = Inl TypeError"

text \<open>\<open>d.get(key, default)\<close> on a dict; Python's \<open>None\<close> is \<open>JNull\<close>.\<close>

definition dict_get :: "(string \<times> json) list \<Rightarrow> string \<Rightarrow> json \<Rightarrow> json" where
  "dict_get kvs k d = (case map_of kvs k of Some v \<Rightarrow> v | None \<Rightarrow> d)"

text \<open>\<open>len(v)\<close> and \<open>v[0]\<close>.\<close>

fun py_len :: "json \<Rightarrow> error + nat" where
  "py_len (JStr s) = Inr (length s)"
| "py_len (JArr xs) = Inr (length xs)"
| "py_len (JObj kvs) = Inr (length kvs)"
| "py_len _ = Inl TypeError"

fun py_first :: "json \<Rightarrow> error + json" where
  "py_first (JArr (x # xs)) = Inr x"
| "py_first (JStr (c # s)) = Inr (JStr [c])"
| "py_first (JArr []) = Inl IndexError"
| "py_first (JStr []) = Inl IndexError"
| "py_first (JObj kvs) = Inl (KeyError ''0'')"
| "py_first _ = Inl TypeError"

text \<open>\<open>str(v)\<close> inside an f-string, for the values that can reach one (a list or a dict
  never does: \<open>find_instance\<close> has raised before).\<close>

definition digit_char :: "nat \<Rightarrow> char" where
  "digit_char d =
     (if d = 0 then CHR 0x30 else if d = 1 then CHR 0x31 else if d = 2 then CHR 0x32
      else if d = 3 then CHR 0x33 else if d = 4 then CHR 0x34 else if d = 5 then CHR 0x35
      else if d = 6 then CHR 0x36 else if d = 7 then CHR 0x37 else if d = 8 then CHR 0x38
      else CHR 0x39)"

fun nat_digits :: "nat \<Rightarrow> string" where
  "nat_digits n =
     (if n < 10 then [digit_char n] else nat_digits (n div 10) @ [digit_char (n mod 10)])"

fun py_str :: "json \<Rightarrow> string" where
  "py_str (JStr s) = s"
| "py_str (JInt n) = (if n < 0 then ''-'' @ nat_digits (nat (- n)) else nat_digits (nat n))"
| "py_str (JBool b) = (if b then ''True'' else ''False'')"
| "py_str JNull = ''None''"
| "py_str _ = []"

text \<open>\<open>v[key] = x\<close>: only a dict takes a string key.\<close>

fun py_setitem :: "json \<Rightarrow> string \<Rightarrow> json \<Rightarrow> error + json" where
  "py_setitem (JObj kvs) k x = Inr (JObj (AList.update k x kvs))"
| "py_setitem _ k x = Inl TypeError"

text \<open>\<open>for x in v\<close>: the elements of a list, the keys of a dict, the characters of a string.\<close>

fun py_iter :: "json \<Rightarrow> error + json list" where
  "py_iter (JArr xs) = Inr xs"
| "py_iter (JObj kvs) = Inr (map (\<lambda>kv. JStr (fst kv)) kvs)"
| "py_iter (JStr s) = Inr (map (\<lambda>c. JStr [c]) s)"
| "py_iter _ = Inl TypeError"

section \<open>Schema augmenter\<close>

definition binary_property :: json where
  "binary_property =
     JObj [(''type'', JStr ''string''),
           (''description'', JStr (''Target binary (name like 'binary.exe', sha256 hash, or path). ''
                                   @ ''Use list_instances to see available binaries.''))]"

definition list_instances_tool :: json where
  "list_instances_tool =
     JObj [(''name'', JStr ''list_instances''),
           (''description'', JStr ''List all connected IDA Pro instances with their binary information''),
           (''inputSchema'', JObj [(''type'', JStr ''object''),
                                   (''properties'', JObj []),
                                   (''required'', JArr [])])]"

text \<open>The body of the loop \<open>for tool in response["result"]["tools"]\<close>. The assignment
  mutates the nested dicts in place; here the updated tool is rebuilt from the inside out.\<close>

definition add_binary_to_tool :: "json \<Rightarrow> error + json" where
  "add_binary_to_tool tool =
     bindE (py_contains ''inputSchema'' tool) (\<lambda>has_schema.
       if \<not> has_schema then Inr tool
       else bindE (py_getitem tool ''inputSchema'') (\<lambda>schema.
            bindE (py_contains ''properties'' schema) (\<lambda>has_properties.
              if \<not> has_properties then Inr tool
              else bindE (py_getitem schema ''properties'') (\<lambda>properties.
                   bindE (py_setitem properties ''binary'' binary_property) (\<lambda>properties'.
                   bindE (py_setitem schema ''properties'' properties') (\<lambda>schema'.
                   py_setitem tool ''inputSchema'' schema'))))))"

text \<open>One element of \<open>{tool["name"] for tool in ...}\<close>: the name goes into a set, so it
  has to be hashable.\<close>

definition tool_name :: "json \<Rightarrow> error + json" where
  "tool_name tool =
     bindE (py_getitem tool ''name'') (\<lambda>n.
       case n of JArr _ \<Rightarrow> Inl TypeError | JObj _ \<Rightarrow> Inl TypeError | _ \<Rightarrow> Inr n)"

text \<open>\<open>tools.append(list_instances_tool)\<close>\<close>

fun py_append :: "json \<Rightarrow> json \<Rightarrow> error + json" where
  "py_append (JArr xs) x = Inr (JArr (xs @ [x]))"
| "py_append _ x = Inl AttributeError"

definition add_binary_param_to_schema :: "json \<Rightarrow> error + json" where
  "add_binary_param_to_schema response =
     bindE (py_contains ''result'' response) (\<lambda>has_result.
       if \<not> has_result then Inr response
       else bindE (py_getitem response ''result'') (\<lambda>result.
            bindE (py_contains ''tools'' result) (\<lambda>has_tools.
              if \<not> has_tools then Inr response
              else bindE (py_getitem result ''tools'') (\<lambda>tools.
                   bindE (py_iter tools) (\<lambda>items.
                   bindE (mapE add_binary_to_tool items) (\<lambda>items'.
                   bindE (mapE tool_name items') (\<lambda>existing_names.
                   bindE (if JStr ''list_instances'' \<notin> set existing_names
                          then py_append (case tools of JArr _ \<Rightarrow> JArr items' | _ \<Rightarrow> tools)
                                 list_instances_tool
                          else Inr (case tools of JArr _ \<Rightarrow> JArr items' | _ \<Rightarrow> tools)) (\<lambda>tools'.
                   bindE (py_setitem result ''tools'' tools') (\<lambda>result'.
                   py_setitem response ''result'' result')))))))))"

section \<open>Environment\<close>

text \<open>The metadata a worker's \<open>idb_meta\<close> answers with, once the text of the reply is parsed.\<close>

record idb_metadata =
  m_path :: "string option"
  m_module :: "string option"
  m_md5 :: "string option"
  m_sha256 :: "string option"

text \<open>The request as \<open>dispatch_proxy\<close> receives it: a dict the caller holds, or text.\<close>

datatype inbound = ReqDict "(string \<times> json) list" | ReqText string

text \<open>
  What the gateway does not own: the globals set from the command line, the platform, the
  JSON parser, the network (one POST to a worker answers with the parsed reply or raises),
  the clock read when the worker found on a port is registered, the wrapped dispatcher of the
  RPC framework, and the text Python gives an exception. Every function is total: what the
  network answers is any value of its type.
\<close>

record env =
  IDA_HOST :: string
  IDA_PORT :: int
  darwin :: bool
  loads :: "string \<Rightarrow> error + json"
  forward_to_instance :: "json \<Rightarrow> string \<Rightarrow> int \<Rightarrow> error + json"
  probe_idb_meta :: "string \<Rightarrow> int \<Rightarrow> error + json"
  loads_metadata :: "string \<Rightarrow> error + idb_metadata"
  clock :: "int \<Rightarrow> nat"
  dispatch_original :: "inbound \<Rightarrow> registry \<Rightarrow> (error + json option) \<times> registry"
  exc_str :: "error \<Rightarrow> string"
  format_exc :: "error \<Rightarrow> string"

section \<open>Discovery scanner\<close>

text \<open>
  The body of the \<open>try\<close> in \<open>discover_ida_instances\<close> for one port, in two steps. First
  the request and the checks on the reply (lines 1146 to 1164): the metadata of the worker,
  \<open>None\<close> when an \<open>if\<close> finds the reply without \<open>result.content[0].text\<close>, or the
  exception raised.
\<close>

definition fetch_metadata :: "env \<Rightarrow> string \<Rightarrow> int \<Rightarrow> error + idb_metadata option" where
  "fetch_metadata ev h p =
     bindE (probe_idb_meta ev h p) (\<lambda>data.
     bindE (py_contains ''result'' data) (\<lambda>has_result.
       if \<not> has_result then Inr None
       else bindE (py_getitem data ''result'') (\<lambda>result.
            bindE (py_contains ''content'' result) (\<lambda>has_content.
              if \<not> has_content then Inr None
              else bindE (py_getitem result ''content'') (\<lambda>content.
                   if \<not> py_truthy content then Inr None
                   else bindE (py_len content) (\<lambda>n.
                        if \<not> 0 < n then Inr None
                        else bindE (py_first content) (\<lambda>first.
                             bindE (py_contains ''text'' first) (\<lambda>has_text.
                               if \<not> has_text then Inr None
                               else bindE (py_getitem first ''text'') (\<lambda>text.
                                    bindE (case text of JStr t \<Rightarrow> loads_metadata ev t
                                                      | _ \<Rightarrow> Inl TypeError) (\<lambda>metadata.
                                      Inr (Some metadata)))))))))))"

text \<open>Then the registration (lines 1166 to 1176): the new value of \<open>discovered\<close> and the
  registry.\<close>

definition probe_port :: "env \<Rightarrow> string \<Rightarrow> int \<Rightarrow> nat \<Rightarrow> registry \<Rightarrow> error + nat \<times> registry" where
  "probe_port ev h p discovered reg =
     bindE (fetch_metadata ev h p) (\<lambda>found.
       case found of
         None \<Rightarrow> Inr (discovered, reg)
       | Some metadata \<Rightarrow>
           (case register_instance (clock ev p)
                   \<lparr> rd_host = Some h, rd_port = Some p,
                     rd_path = Some (get_default (m_path metadata) ''''),
                     rd_module = Some (get_default (m_module metadata) ''''),
                     rd_md5 = Some (get_default (m_md5 metadata) ''''),
                     rd_sha256 = Some (get_default (m_sha256 metadata) '''') \<rparr>
                   reg of
              (Success b, reg') \<Rightarrow> Inr (discovered + 1, reg')
            | (Failure b, reg') \<Rightarrow> Inr (discovered, reg')))"

text \<open>\<open>try: ... except Exception: pass\<close>\<close>

definition try_except_pass :: "error + 'a \<Rightarrow> 'a \<Rightarrow> error + 'a" where
  "try_except_pass body unchanged = (case body of Inl e \<Rightarrow> Inr unchanged | Inr v \<Rightarrow> Inr v)"

text \<open>\<open>for i in range(max_tries)\<close>, with \<open>port = start_port + i\<close>: the first argument
  counts the iterations left.\<close>

fun discover_loop :: "nat \<Rightarrow> env \<Rightarrow> string \<Rightarrow> int \<Rightarrow> nat \<Rightarrow> registry \<Rightarrow> error + nat \<times> registry" where
  "discover_loop 0 ev h p discovered reg = Inr (discovered, reg)"
| "discover_loop (Suc n) ev h p discovered reg =
     bindE (try_except_pass (probe_port ev h p discovered reg) (discovered, reg))
       (\<lambda>st. discover_loop n ev h (p + 1) (fst st) (snd st))"

definition discover_ida_instances :: "env \<Rightarrow> string \<Rightarrow> int \<Rightarrow> int \<Rightarrow> registry \<Rightarrow> error + nat \<times> registry" where
  "discover_ida_instances ev h start_port max_tries reg =
     discover_loop (nat max_tries) ev h start_port 0 reg"

section \<open>Routing gateway\<close>

text \<open>
  What one call of \<open>dispatch_proxy\<close> leaves behind: the value returned (\<open>None\<close> or a reply)
  or the exception raised, the registry, the request as its caller holds it afterwards (a
  dict passed in is the very object the gateway pops the selector from; text is parsed into
  a fresh object), and every request handed to \<open>forward_to_instance\<close>, with the address,
  whether or not the worker answered.
\<close>

record dispatch_result =
  returned :: "error + json option"
  registry_after :: registry
  request_after :: inbound
  forwarded :: "(string \<times> int \<times> json) list"

definition error_reply :: "json \<Rightarrow> (string \<times> json) list \<Rightarrow> json" where
  "error_reply request_id err =
     JObj [(''jsonrpc'', JStr ''2.0''), (''error'', JObj err), (''id'', request_id)]"

definition no_instances_reply :: "json \<Rightarrow> json" where
  "no_instances_reply request_id =
     JObj [(''jsonrpc'', JStr ''2.0''),
           (''result'', JObj [(''tools'', JArr [
              JObj [(''name'', JStr ''list_instances''),
                    (''description'', JStr (''List all connected IDA Pro instances with their binary information. ''
                                            @ ''No IDA instances are currently connected.'')),
                    (''inputSchema'', JObj [(''type'', JStr ''object''),
                                            (''properties'', JObj []),
                                            (''required'', JArr [])])]])]),
           (''id'', request_id)]"

definition not_found_error :: "json \<Rightarrow> (string \<times> json) list" where
  "not_found_error binary =
     [(''code'', JInt (- 32000)),
      (''message'', JStr (''No IDA instance found for binary: '' @ py_str binary
                          @ ''. Use list_instances to see available binaries.''))]"

definition ambiguous_error :: "(string \<times> json) list" where
  "ambiguous_error =
     [(''code'', JInt (- 32000)),
      (''message'', JStr (''Multiple IDA instances are connected. Please specify the 'binary' parameter ''
                          @ ''to select which one to use. Use list_instances to see available binaries.''))]"

definition tools_error :: "env \<Rightarrow> error \<Rightarrow> (string \<times> json) list" where
  "tools_error ev e =
     [(''code'', JInt (- 32000)),
      (''message'', JStr (''Failed to get tools: '' @ exc_str ev e))]"

definition connect_error :: "env \<Rightarrow> error \<Rightarrow> (string \<times> json) list" where
  "connect_error ev e =
     [(''code'', JInt (- 32000)),
      (''message'', JStr (''Failed to connect to IDA Pro! Did you run Edit -> Plugins -> MCP (''
                          @ (if darwin ev then ''Ctrl+Option+M'' else ''Ctrl+Alt+M'')
                          @ '') to start the server?'' @ [CHR 0x0A] @ format_exc ev e)),
      (''data'', JStr (exc_str ev e))]"

text \<open>\<open>return dispatch_original(request)\<close>\<close>

definition handle_locally :: "env \<Rightarrow> inbound \<Rightarrow> registry \<Rightarrow> dispatch_result" where
  "handle_locally ev request reg =
     \<lparr> returned = fst (dispatch_original ev request reg),
       registry_after = snd (dispatch_original ev request reg),
       request_after = request,
       forwarded = [] \<rparr>"

text \<open>The branch \<open>if method == "tools/list"\<close>, which always returns.\<close>

definition handle_tools_list :: "env \<Rightarrow> (string \<times> json) list \<Rightarrow> inbound \<Rightarrow> registry \<Rightarrow> dispatch_result" where
  "handle_tools_list ev request_obj request reg =
     (case (if get_instance_count reg = 0
            then discover_ida_instances ev (IDA_HOST ev) 13338 10 reg
            else Inr (0, reg)) of
        Inl e \<Rightarrow> \<lparr> returned = Inl e, registry_after = reg, request_after = request, forwarded = [] \<rparr>
      | Inr st \<Rightarrow>
          (if get_instance_count (snd st) = 0
           then \<lparr> returned = Inr (Some (no_instances_reply (dict_get request_obj ''id'' JNull))),
                  registry_after = snd st, request_after = request, forwarded = [] \<rparr>
           else (case snd st of
                   [] \<Rightarrow> \<lparr> returned = Inl IndexError, registry_after = snd st,
                           request_after = request, forwarded = [] \<rparr>
                 | kv # r \<Rightarrow>
                     \<lparr> returned =
                         (case bindE (forward_to_instance ev (JObj request_obj) (host (snd kv)) (port (snd kv)))
                                 add_binary_param_to_schema of
                            Inr response \<Rightarrow> Inr (Some response)
                          | Inl e \<Rightarrow> Inr (Some (error_reply (dict_get request_obj ''id'' JNull)
                                                   (tools_error ev e)))),
                       registry_after = snd st,
                       request_after = request,
                       forwarded = [(host (snd kv), port (snd kv), JObj request_obj)] \<rparr>)))"

text \<open>
  Lines 184 to 192: the selector is popped from \<open>params["arguments"]\<close> for \<open>tools/call\<close>,
  from \<open>params\<close> otherwise. The result is the selector (\<open>None\<close> is \<open>JNull\<close>) and the
  request object after the pop. A missing \<open>params\<close> is the fresh \<open>{}\<close> of
  \<open>request_obj.get("params", {})\<close>, which is not part of the request.
\<close>

definition extract_binary :: "string \<Rightarrow> (string \<times> json) list \<Rightarrow> json \<times> (string \<times> json) list" where
  "extract_binary m request_obj =
     (case map_of request_obj ''params'' of
        None \<Rightarrow> (JNull, request_obj)
      | Some (JObj params) \<Rightarrow>
          (if m = ''tools/call'' \<and> map_of params ''arguments'' \<noteq> None
           then (case dict_get params ''arguments'' (JObj []) of
                   JObj arguments \<Rightarrow>
                     (dict_get arguments ''binary'' JNull,
                      AList.update ''params''
                        (JObj (AList.update ''arguments'' (JObj (AList.delete ''binary'' arguments)) params))
                        request_obj)
                 | _ \<Rightarrow> (JNull, request_obj))
           else (dict_get params ''binary'' JNull,
                 AList.update ''params'' (JObj (AList.delete ''binary'' params)) request_obj))
      | Some _ \<Rightarrow> (JNull, request_obj))"

text \<open>Lines 194 to 234: where the request goes, or what is returned without forwarding.\<close>

datatype routing = Forward string int | Answer "json option"

definition determine_target :: "env \<Rightarrow> json \<Rightarrow> json \<Rightarrow> registry \<Rightarrow> error + routing" where
  "determine_target ev binary request_id reg =
     (if py_truthy binary then
        bindE (find_instance binary reg) (\<lambda>found.
          case found of
            None \<Rightarrow> Inr (Answer (if request_id = JNull then None
                                  else Some (error_reply request_id (not_found_error binary))))
          | Some i \<Rightarrow> Inr (Forward (host i) (port i)))
      else if get_instance_count reg = 1 then
        (case get_single_instance reg of
           Some i \<Rightarrow> Inr (Forward (host i) (port i))
         | None \<Rightarrow> Inr (Forward (IDA_HOST ev) (IDA_PORT ev)))
      else if get_instance_count reg > 1 then
        Inr (Answer (if request_id = JNull then None
                     else Some (error_reply request_id ambiguous_error)))
      else Inr (Forward (IDA_HOST ev) (IDA_PORT ev)))"

text \<open>Lines 236 to 264: the forward and the mapping of its failure.\<close>

definition forward_or_error :: "env \<Rightarrow> (string \<times> json) list \<Rightarrow> string \<Rightarrow> int \<Rightarrow> json option" where
  "forward_or_error ev request_obj target_host target_port =
     (case forward_to_instance ev (JObj request_obj) target_host target_port of
        Inr response \<Rightarrow> Some response
      | Inl e \<Rightarrow>
          (if dict_get request_obj ''id'' JNull = JNull then None
           else Some (error_reply (dict_get request_obj ''id'' JNull) (connect_error ev e))))"

text \<open>What the caller's request is after the pop: a dict has been changed in place.\<close>

definition after_pop :: "inbound \<Rightarrow> (string \<times> json) list \<Rightarrow> inbound" where
  "after_pop request request_obj = (case request of ReqDict d \<Rightarrow> ReqDict request_obj | ReqText t \<Rightarrow> ReqText t)"

definition route_request :: "env \<Rightarrow> string \<Rightarrow> (string \<times> json) list \<Rightarrow> inbound \<Rightarrow> registry \<Rightarrow> dispatch_result" where
  "route_request ev m request_obj request reg =
     (let binary = fst (extract_binary m request_obj);
          popped = snd (extract_binary m request_obj)
      in case determine_target ev binary (dict_get popped ''id'' JNull) reg of
           Inl e \<Rightarrow> \<lparr> returned = Inl e, registry_after = reg,
                     request_after = after_pop request popped, forwarded = [] \<rparr>
         | Inr (Answer reply) \<Rightarrow>
             \<lparr> returned = Inr reply, registry_after = reg,
               request_after = after_pop request popped, forwarded = [] \<rparr>
         | Inr (Forward target_host target_port) \<Rightarrow>
             \<lparr> returned = Inr (forward_or_error ev popped target_host target_port),
               registry_after = reg,
               request_after = after_pop request popped,
               forwarded = [(target_host, target_port, JObj popped)] \<rparr>)"

text \<open>Lines 121 to 124: a dict is taken as it is, anything else goes through \<open>json.loads\<close>.\<close>

definition parse_request :: "env \<Rightarrow> inbound \<Rightarrow> error + json" where
  "parse_request ev request = (case request of ReqDict d \<Rightarrow> Inr (JObj d) | ReqText t \<Rightarrow> loads ev t)"

definition dispatch_proxy :: "env \<Rightarrow> inbound \<Rightarrow> registry \<Rightarrow> dispatch_result" where
  "dispatch_proxy ev request reg =
     (case parse_request ev request of
        Inl e \<Rightarrow> \<lparr> returned = Inl e, registry_after = reg, request_after = request, forwarded = [] \<rparr>
      | Inr parsed \<Rightarrow>
          (case py_getitem parsed ''method'' of
             Inl e \<Rightarrow> \<lparr> returned = Inl e, registry_after = reg, request_after = request, forwarded = [] \<rparr>
           | Inr method \<Rightarrow>
               (case (parsed, method) of
                  (JObj request_obj, JStr m) \<Rightarrow>
                    (if m = ''initialize'' then handle_locally ev request reg
                     else if prefix ''notifications/'' m then handle_locally ev request reg
                     else if m = ''tools/call''
                           \<and> (case dict_get request_obj ''params'' (JObj []) of
                                 JObj params \<Rightarrow> dict_get params ''name'' JNull = JStr ''list_instances''
                               | _ \<Rightarrow> False)
                          then handle_locally ev request reg
                     else if m = ''tools/list'' then handle_tools_list ev request_obj request reg
                     else route_request ev m request_obj request reg)
                | _ \<Rightarrow> \<lparr> returned = Inl AttributeError, registry_after = reg,
                         request_after = request, forwarded = [] \<rparr>)))"

section \<open>Notions used in the statements\<close>

text \<open>The candidate keys of an unregister payload, in the order the code tries them.\<close>

definition unregister_candidates :: "unregister_data \<Rightarrow> string list" where
  "unregister_candidates data =
     [get_default (ud_binary_id data) '''', get_default (ud_sha256 data) '''',
      get_default (ud_md5 data) '''']"

text \<open>The probe of a port ends in a registration: the reply passes the checks and the
  metadata carries a non-empty hash.\<close>

definition probe_registers :: "env \<Rightarrow> string \<Rightarrow> int \<Rightarrow> bool" where
  "probe_registers ev h p =
     (case fetch_metadata ev h p of
        Inr (Some metadata) \<Rightarrow>
          get_default (m_sha256 metadata) '''' \<noteq> '''' \<or> get_default (m_md5 metadata) '''' \<noteq> ''''
      | _ \<Rightarrow> False)"

text \<open>The number of identities registered afterwards that were not registered before.\<close>

definition new_workers :: "registry \<Rightarrow> registry \<Rightarrow> nat" where
  "new_workers before after = card (fst ` set after - fst ` set before)"

text \<open>The three conditions under which \<open>dispatch_proxy\<close> hands the request to the wrapped
  dispatcher (lines 129 to 138), and the requests that reach the routing code: parsed to an
  object whose method is a string, not handled locally, and not the capability listing.\<close>

definition handled_locally :: "string \<Rightarrow> (string \<times> json) list \<Rightarrow> bool" where
  "handled_locally m request_obj =
     (m = ''initialize'' \<or> prefix ''notifications/'' m
      \<or> (m = ''tools/call''
          \<and> (case dict_get request_obj ''params'' (JObj []) of
                JObj params \<Rightarrow> dict_get params ''name'' JNull = JStr ''list_instances''
              | _ \<Rightarrow> False)))"

definition routed :: "env \<Rightarrow> inbound \<Rightarrow> (string \<times> json) list \<Rightarrow> string \<Rightarrow> bool" where
  "routed ev request request_obj m =
     (parse_request ev request = Inr (JObj request_obj)
      \<and> map_of request_obj ''method'' = Some (JStr m)
      \<and> \<not> handled_locally m request_obj
      \<and> m \<noteq> ''tools/list'')"

text \<open>The tool list of a capability-listing reply, \<open>reply["result"]["tools"]\<close>, when the
  reply has that shape, and the same reply with another tool list.\<close>

definition reply_tools :: "json \<Rightarrow> json list option" where
  "reply_tools reply =
     (case reply of
        JObj r \<Rightarrow>
          (case map_of r ''result'' of
             Some (JObj res) \<Rightarrow>
               (case map_of res ''tools'' of Some (JArr ts) \<Rightarrow> Some ts | _ \<Rightarrow> None)
           | _ \<Rightarrow> None)
      | _ \<Rightarrow> None)"

definition with_tools :: "json \<Rightarrow> json list \<Rightarrow> json" where
  "with_tools reply ts =
     (case reply of
        JObj r \<Rightarrow>
          (case map_of r ''result'' of
             Some (JObj res) \<Rightarrow>
               JObj (AList.update ''result'' (JObj (AList.update ''tools'' (JArr ts) res)) r)
           | _ \<Rightarrow> reply)
      | _ \<Rightarrow> reply)"

text \<open>The condition of line 94 (the descriptor's input schema declares a property set), and
  the descriptor with the selector property set in its property set, everything else in
  place: the assignment of line 95 written out. A descriptor whose input schema or property
  set is missing or is no object is left as it is.\<close>

definition declares_properties :: "json \<Rightarrow> bool" where
  "declares_properties tool =
     (bindE (py_contains ''inputSchema'' tool) (\<lambda>has_schema.
        if has_schema then bindE (py_getitem tool ''inputSchema'') (py_contains ''properties'')
        else Inr False) = Inr True)"

definition with_selector :: "json \<Rightarrow> json" where
  "with_selector tool =
     (case tool of
        JObj t \<Rightarrow>
          (case map_of t ''inputSchema'' of
             Some (JObj s) \<Rightarrow>
               (case map_of s ''properties'' of
                  Some (JObj ps) \<Rightarrow>
                    JObj (AList.update ''inputSchema''
                            (JObj (AList.update ''properties''
                                     (JObj (AList.update ''binary'' binary_property ps)) s)) t)
                | _ \<Rightarrow> tool)
           | _ \<Rightarrow> tool)
      | _ \<Rightarrow> tool)"

text \<open>What a descriptor holds: \<open>tool["inputSchema"]["properties"][k]\<close> and
  \<open>tool["inputSchema"][k]\<close>; and the number of descriptors named \<open>list_instances\<close>.\<close>

definition tool_property :: "json \<Rightarrow> string \<Rightarrow> error + json" where
  "tool_property tool k =
     bindE (py_getitem tool ''inputSchema'') (\<lambda>schema.
     bindE (py_getitem schema ''properties'') (\<lambda>properties.
     py_getitem properties k))"

definition schema_entry :: "json \<Rightarrow> string \<Rightarrow> error + json" where
  "schema_entry tool k =
     bindE (py_getitem tool ''inputSchema'') (\<lambda>schema. py_getitem schema k)"

definition enumeration_entries :: "json list \<Rightarrow> nat" where
  "enumeration_entries tools =
     length (filter (\<lambda>tool. py_getitem tool ''name'' = Inr (JStr ''list_instances'')) tools)"

text \<open>A descriptor as a worker sends it: an object with a string name whose input schema,
  if any, is an object whose property set, if any, is an object.\<close>

definition well_formed_tool :: "json \<Rightarrow> bool" where
  "well_formed_tool tool =
     (case tool of
        JObj t \<Rightarrow>
          (case map_of t ''name'' of
             Some (JStr n) \<Rightarrow>
               (case map_of t ''inputSchema'' of
                  None \<Rightarrow> True
                | Some (JObj s) \<Rightarrow>
                    (case map_of s ''properties'' of
                       None \<Rightarrow> True
                     | Some (JObj ps) \<Rightarrow> True
                     | Some _ \<Rightarrow> False)
                | Some _ \<Rightarrow> False)
           | _ \<Rightarrow> False)
      | _ \<Rightarrow> False)"

section \<open>Concrete inputs\<close>

text \<open>Two registered workers, three environments (every connection refused; one worker
  answering the scan on port 13338; every forward answered), and the requests and replies
  at which the statements below are evaluated.\<close>

definition inst_a :: ida_instance where
  "inst_a = \<lparr> host = ''127.0.0.1'', port = 13338, path = ''/work/ls'', module = ''ls'',
              md5 = ''m1'', sha256 = ''aa'', registered_at = 1 \<rparr>"

definition inst_b :: ida_instance where
  "inst_b = \<lparr> host = ''127.0.0.1'', port = 13339, path = ''/work/aa/cat'', module = ''aa'',
              md5 = ''m2'', sha256 = ''bb'', registered_at = 2 \<rparr>"

definition two_workers :: registry where
  "two_workers = [(''aa'', inst_a), (''bb'', inst_b)]"

definition idb_meta_reply :: json where
  "idb_meta_reply =
     JObj [(''jsonrpc'', JStr ''2.0''),
           (''result'', JObj [(''content'', JArr [JObj [(''type'', JStr ''text''),
                                                         (''text'', JStr ''metadata of ls'')]])]),
           (''id'', JInt 1)]"

definition metadata_a :: idb_metadata where
  "metadata_a = \<lparr> m_path = Some ''/work/ls'', m_module = Some ''ls'', m_md5 = Some ''m1'',
                   m_sha256 = Some ''aa'' \<rparr>"

definition refusing_env :: env where
  "refusing_env =
     \<lparr> IDA_HOST = ''127.0.0.1'', IDA_PORT = 13337, darwin = False,
       loads = (\<lambda>t. Inl JSONDecodeError),
       forward_to_instance = (\<lambda>r h p. Inl (TransportError ''Connection refused'')),
       probe_idb_meta = (\<lambda>h p. Inl (TransportError ''Connection refused'')),
       loads_metadata = (\<lambda>t. Inl JSONDecodeError),
       clock = (\<lambda>p. 1),
       dispatch_original = (\<lambda>r reg. (Inr None, reg)),
       exc_str = (\<lambda>e. ''Connection refused''),
       format_exc = (\<lambda>e. ''Traceback'') \<rparr>"

definition one_worker_env :: env where
  "one_worker_env =
     \<lparr> IDA_HOST = ''127.0.0.1'', IDA_PORT = 13337, darwin = False,
       loads = (\<lambda>t. Inl JSONDecodeError),
       forward_to_instance = (\<lambda>r h p. Inl (TransportError ''Connection refused'')),
       probe_idb_meta = (\<lambda>h p. if p = 13338 then Inr idb_meta_reply
                                 else if p = 13339 then Inr (JArr [])
                                 else Inl (TransportError ''Connection refused'')),
       loads_metadata = (\<lambda>t. Inr metadata_a),
       clock = (\<lambda>p. 1),
       dispatch_original = (\<lambda>r reg. (Inr None, reg)),
       exc_str = (\<lambda>e. ''Connection refused''),
       format_exc = (\<lambda>e. ''Traceback'') \<rparr>"

definition call_without_id :: "(string \<times> json) list" where
  "call_without_id =
     [(''jsonrpc'', JStr ''2.0''), (''method'', JStr ''tools/call''),
      (''params'', JObj [(''name'', JStr ''decompile''),
                         (''arguments'', JObj [(''addr'', JStr ''0x401000'')])])]"

definition call_with_id :: "(string \<times> json) list" where
  "call_with_id =
     [(''jsonrpc'', JStr ''2.0''), (''method'', JStr ''tools/call''),
      (''params'', JObj [(''name'', JStr ''decompile''),
                         (''arguments'', JObj [(''addr'', JStr ''0x401000'')])]),
      (''id'', JInt 7)]"

definition tools_list_without_id :: "(string \<times> json) list" where
  "tools_list_without_id = [(''jsonrpc'', JStr ''2.0''), (''method'', JStr ''tools/list'')]"

definition tools_list_with_id :: "(string \<times> json) list" where
  "tools_list_with_id =
     [(''jsonrpc'', JStr ''2.0''), (''method'', JStr ''tools/list''), (''id'', JInt 3)]"

definition call_with_selector :: "(string \<times> json) list" where
  "call_with_selector =
     [(''jsonrpc'', JStr ''2.0''), (''method'', JStr ''tools/call''),
      (''params'', JObj [(''name'', JStr ''decompile''),
                         (''arguments'', JObj [(''addr'', JStr ''0x401000''),
                                               (''binary'', JStr ''ls'')])]),
      (''id'', JInt 7)]"

definition call_selector_removed :: "(string \<times> json) list" where
  "call_selector_removed =
     [(''jsonrpc'', JStr ''2.0''), (''method'', JStr ''tools/call''),
      (''params'', JObj [(''name'', JStr ''decompile''),
                         (''arguments'', JObj [(''addr'', JStr ''0x401000'')])]),
      (''id'', JInt 7)]"

definition call_empty_selector :: "(string \<times> json) list" where
  "call_empty_selector =
     [(''jsonrpc'', JStr ''2.0''), (''method'', JStr ''tools/call''),
      (''params'', JObj [(''name'', JStr ''decompile''),
                         (''arguments'', JObj [(''addr'', JStr ''0x401000''),
                                               (''binary'', JStr '''')])]),
      (''id'', JInt 7)]"

definition worker_reply :: json where
  "worker_reply = JObj [(''jsonrpc'', JStr ''2.0''), (''result'', JStr ''ok''), (''id'', JInt 7)]"

definition answering_env :: env where
  "answering_env =
     \<lparr> IDA_HOST = ''127.0.0.1'', IDA_PORT = 13337, darwin = False,
       loads = (\<lambda>t. if t = ''call with selector'' then Inr (JObj call_with_selector)
                     else Inl JSONDecodeError),
       forward_to_instance = (\<lambda>r h p. Inr worker_reply),
       probe_idb_meta = (\<lambda>h p. Inl (TransportError ''Connection refused'')),
       loads_metadata = (\<lambda>t. Inl JSONDecodeError),
       clock = (\<lambda>p. 1),
       dispatch_original = (\<lambda>r reg. (Inr None, reg)),
       exc_str = (\<lambda>e. ''Connection refused''),
       format_exc = (\<lambda>e. ''Traceback'') \<rparr>"

definition empty_tools_reply :: json where
  "empty_tools_reply =
     JObj [(''jsonrpc'', JStr ''2.0''), (''result'', JObj [(''tools'', JArr [])]), (''id'', JInt 3)]"

definition decompile_tool :: json where
  "decompile_tool =
     JObj [(''name'', JStr ''decompile''),
           (''inputSchema'', JObj [(''type'', JStr ''object''),
                                   (''properties'', JObj [(''addr'', JObj [(''type'', JStr ''string'')])]),
                                   (''required'', JArr [JStr ''addr''])])]"

definition worker_tools_reply :: json where
  "worker_tools_reply =
     JObj [(''jsonrpc'', JStr ''2.0''),
           (''result'', JObj [(''tools'', JArr [decompile_tool, list_instances_tool])]),
           (''id'', JInt 3)]"

definition list_instances_with_selector :: json where
  "list_instances_with_selector =
     JObj [(''name'', JStr ''list_instances''),
           (''description'', JStr ''List all connected IDA Pro instances with their binary information''),
           (''inputSchema'', JObj [(''type'', JStr ''object''),
                                   (''properties'', JObj [(''binary'', binary_property)]),
                                   (''required'', JArr [])])]"

definition empty_tools_augmented :: json where
  "empty_tools_augmented =
     JObj [(''jsonrpc'', JStr ''2.0''),
           (''result'', JObj [(''tools'', JArr [list_instances_tool])]),
           (''id'', JInt 3)]"

definition empty_tools_augmented_twice :: json where
  "empty_tools_augmented_twice =
     JObj [(''jsonrpc'', JStr ''2.0''),
           (''result'', JObj [(''tools'', JArr [list_instances_with_selector])]),
           (''id'', JInt 3)]"

definition worker_tools_augmented :: json where
  "worker_tools_augmented =
     JObj [(''jsonrpc'', JStr ''2.0''),
           (''result'', JObj [(''tools'', JArr [
              JObj [(''name'', JStr ''decompile''),
                    (''inputSchema'', JObj [(''type'', JStr ''object''),
                        (''properties'', JObj [(''addr'', JObj [(''type'', JStr ''string'')]),
                                               (''binary'', binary_property)]),
                        (''required'', JArr [JStr ''addr''])])],
              list_instances_with_selector])]),
           (''id'', JInt 3)]"

section \<open>Properties of the registry\<close>

text \<open>
  C5. A registration payload whose sha256 and md5 are both empty (or missing) is refused
  with the validation error and the registry is returned as it was. A payload with a
  non-empty hash is accepted: the reply carries the identity key, which is the sha256 when
  that is non-empty and the md5 otherwise, the record is stored under that key, and no
  other key changes.
\<close>

theorem register_instance_validation:
  "(get_default (rd_sha256 data) '''' = '''' \<and> get_default (rd_md5 data) '''' = '''' \<longrightarrow>
      register_instance now data reg = (Failure ''No sha256 or md5 provided'', reg))
   \<and> (get_default (rd_sha256 data) '''' \<noteq> '''' \<or> get_default (rd_md5 data) '''' \<noteq> '''' \<longrightarrow>
      (\<exists>reg' i. register_instance now data reg =
                (Success (if get_default (rd_sha256 data) '''' \<noteq> ''''
                          then get_default (rd_sha256 data) ''''
                          else get_default (rd_md5 data) ''''), reg')
          \<and> map_of reg' (if get_default (rd_sha256 data) '''' \<noteq> ''''
                          then get_default (rd_sha256 data) ''''
                          else get_default (rd_md5 data) '''') = Some i
          \<and> sha256 i = get_default (rd_sha256 data) ''''
          \<and> md5 i = get_default (rd_md5 data) ''''
          \<and> (\<forall>k. k \<noteq> (if get_default (rd_sha256 data) '''' \<noteq> ''''
                          then get_default (rd_sha256 data) ''''
                          else get_default (rd_md5 data) '''') \<longrightarrow> map_of reg' k = map_of reg k)))"
proof (intro conjI impI)
  assume "get_default (rd_sha256 data) '''' = '''' \<and> get_default (rd_md5 data) '''' = ''''"
  then show "register_instance now data reg = (Failure ''No sha256 or md5 provided'', reg)"
    by (simp add: register_instance_def)
next
  assume h: "get_default (rd_sha256 data) '''' \<noteq> '''' \<or> get_default (rd_md5 data) '''' \<noteq> ''''"
  show "\<exists>reg' i. register_instance now data reg =
                (Success (if get_default (rd_sha256 data) '''' \<noteq> ''''
                          then get_default (rd_sha256 data) ''''
                          else get_default (rd_md5 data) ''''), reg')
          \<and> map_of reg' (if get_default (rd_sha256 data) '''' \<noteq> ''''
                          then get_default (rd_sha256 data) ''''
                          else get_default (rd_md5 data) '''') = Some i
          \<and> sha256 i = get_default (rd_sha256 data) ''''
          \<and> md5 i = get_default (rd_md5 data) ''''
          \<and> (\<forall>k. k \<noteq> (if get_default (rd_sha256 data) '''' \<noteq> ''''
                          then get_default (rd_sha256 data) ''''
                          else get_default (rd_md5 data) '''') \<longrightarrow> map_of reg' k = map_of reg k)"
  proof (cases "get_default (rd_sha256 data) '''' \<noteq> ''''")
    case True
    then show ?thesis by (simp add: register_instance_def Let_def update_conv)
  next
    case False
    with h show ?thesis by (simp add: register_instance_def Let_def update_conv)
  qed
qed

theorem register_instance_validation_witness:
  "register_instance 7 \<lparr> rd_host = None, rd_port = None, rd_path = Some ''/work/ls'',
       rd_module = Some ''ls'', rd_md5 = Some '''', rd_sha256 = None \<rparr> two_workers
     = (Failure ''No sha256 or md5 provided'', two_workers)
   \<and> fst (register_instance 7 \<lparr> rd_host = None, rd_port = None, rd_path = Some ''/work/ls'',
       rd_module = Some ''ls'', rd_md5 = Some ''d41d'', rd_sha256 = None \<rparr> two_workers)
     = Success ''d41d''"
  using register_instance_validation [of "\<lparr> rd_host = None, rd_port = None,
       rd_path = Some ''/work/ls'', rd_module = Some ''ls'', rd_md5 = Some '''',
       rd_sha256 = None \<rparr>" 7 two_workers]
    register_instance_validation [of "\<lparr> rd_host = None, rd_port = None,
       rd_path = Some ''/work/ls'', rd_module = Some ''ls'', rd_md5 = Some ''d41d'',
       rd_sha256 = None \<rparr>" 7 two_workers]
  by (auto simp: get_default_def)

lemma first_by_module_find:
  "first_by_module b reg = List.find (\<lambda>i. module i = b) (map snd reg)"
  by (induction reg) auto

lemma first_by_path_find:
  "first_by_path b reg = List.find (\<lambda>i. sublist b (path i)) (map snd reg)"
  by (induction reg) auto

lemma first_by_module_None:
  "first_by_module b reg = None \<longleftrightarrow> (\<forall>kv\<in>set reg. module (snd kv) \<noteq> b)"
  by (induction reg) auto

lemma first_by_module_Some:
  "first_by_module b reg = Some i \<Longrightarrow> i \<in> snd ` set reg \<and> module i = b"
  by (induction reg) (auto split: if_splits)

lemma first_by_path_None:
  "first_by_path b reg = None \<longleftrightarrow> (\<forall>kv\<in>set reg. \<not> sublist b (path (snd kv)))"
  by (induction reg) auto

lemma first_by_path_Some:
  "first_by_path b reg = Some i \<Longrightarrow> i \<in> snd ` set reg \<and> sublist b (path i)"
  by (induction reg) (auto split: if_splits)

text \<open>
  C6. For a string selector \<open>find_instance\<close> resolves in three tiers. A record registered
  under the selector as its identity is returned, whatever the other records' module names
  and paths are. Otherwise, if some record has the selector as its module name, the first
  such record in registration order is returned. Otherwise, if the selector is a substring
  of some record's path, the first such record is returned. Otherwise the result is absent.
\<close>

theorem find_instance_three_tiers:
  "(\<forall>i. map_of reg b = Some i \<longrightarrow> find_instance (JStr b) reg = Inr (Some i))
   \<and> (map_of reg b = None \<and> (\<exists>kv\<in>set reg. module (snd kv) = b) \<longrightarrow>
        (\<exists>i. find_instance (JStr b) reg = Inr (Some i) \<and> i \<in> snd ` set reg \<and> module i = b
             \<and> List.find (\<lambda>i. module i = b) (map snd reg) = Some i))
   \<and> (map_of reg b = None \<and> (\<forall>kv\<in>set reg. module (snd kv) \<noteq> b)
        \<and> (\<exists>kv\<in>set reg. sublist b (path (snd kv))) \<longrightarrow>
        (\<exists>i. find_instance (JStr b) reg = Inr (Some i) \<and> i \<in> snd ` set reg \<and> sublist b (path i)
             \<and> List.find (\<lambda>i. sublist b (path i)) (map snd reg) = Some i))
   \<and> (map_of reg b = None
        \<and> (\<forall>kv\<in>set reg. module (snd kv) \<noteq> b \<and> \<not> sublist b (path (snd kv))) \<longrightarrow>
        find_instance (JStr b) reg = Inr None)"
proof (intro conjI allI impI)
  fix i assume "map_of reg b = Some i"
  then show "find_instance (JStr b) reg = Inr (Some i)"
    by (simp add: find_instance_def)
next
  assume h: "map_of reg b = None \<and> (\<exists>kv\<in>set reg. module (snd kv) = b)"
  then obtain i where i: "first_by_module b reg = Some i"
    using first_by_module_None [of b reg] by (cases "first_by_module b reg") auto
  with h have "find_instance (JStr b) reg = Inr (Some i)"
    by (simp add: find_instance_def)
  with i first_by_module_Some [OF i] first_by_module_find [of b reg]
  show "\<exists>i. find_instance (JStr b) reg = Inr (Some i) \<and> i \<in> snd ` set reg \<and> module i = b
             \<and> List.find (\<lambda>i. module i = b) (map snd reg) = Some i"
    by auto
next
  assume h: "map_of reg b = None \<and> (\<forall>kv\<in>set reg. module (snd kv) \<noteq> b)
        \<and> (\<exists>kv\<in>set reg. sublist b (path (snd kv)))"
  then have m: "first_by_module b reg = None"
    using first_by_module_None [of b reg] by simp
  from h obtain i where i: "first_by_path b reg = Some i"
    using first_by_path_None [of b reg] by (cases "first_by_path b reg") auto
  with h m have "find_instance (JStr b) reg = Inr (Some i)"
    by (simp add: find_instance_def)
  with i first_by_path_Some [OF i] first_by_path_find [of b reg]
  show "\<exists>i. find_instance (JStr b) reg = Inr (Some i) \<and> i \<in> snd ` set reg \<and> sublist b (path i)
             \<and> List.find (\<lambda>i. sublist b (path i)) (map snd reg) = Some i"
    by auto
next
  assume h: "map_of reg b = None
        \<and> (\<forall>kv\<in>set reg. module (snd kv) \<noteq> b \<and> \<not> sublist b (path (snd kv)))"
  then have "first_by_module b reg = None" "first_by_path b reg = None"
    using first_by_module_None [of b reg] first_by_path_None [of b reg] by auto
  with h show "find_instance (JStr b) reg = Inr None"
    by (simp add: find_instance_def)
qed

text \<open>The selector \<open>aa\<close> is the identity of the first worker and also the module name of
  the second and a part of its path: the identity wins.\<close>

theorem find_instance_three_tiers_witness:
  "find_instance (JStr ''aa'') two_workers = Inr (Some inst_a)
   \<and> module inst_b = ''aa'' \<and> sublist ''aa'' (path inst_b)
   \<and> find_instance (JStr ''ls'') two_workers = Inr (Some inst_a)
   \<and> find_instance (JStr ''cat'') two_workers = Inr (Some inst_b)
   \<and> find_instance (JStr ''zz'') two_workers = Inr None"
  using find_instance_three_tiers [of two_workers "''aa''"]
    find_instance_three_tiers [of two_workers "''ls''"]
    find_instance_three_tiers [of two_workers "''cat''"]
    find_instance_three_tiers [of two_workers "''zz''"]
  by (simp add: two_workers_def inst_a_def inst_b_def sublist_Cons_right)

lemma unregister_instance_find:
  "unregister_instance data reg =
     (case List.find (\<lambda>k. k \<noteq> '''' \<and> k \<in> fst ` set reg) (unregister_candidates data) of
        Some k \<Rightarrow> (Success k, AList.delete k reg)
      | None \<Rightarrow> (Failure ''Instance not found'', reg))"
  by (simp add: unregister_instance_def unregister_candidates_def Let_def)

lemma find_Some_set: "List.find P xs = Some x \<Longrightarrow> x \<in> set xs \<and> P x"
  by (induction xs) (auto split: if_splits)

lemma find_None_set: "List.find P xs = None \<Longrightarrow> \<forall>x\<in>set xs. \<not> P x"
  by (induction xs) (auto split: if_splits)

text \<open>
  C7, as stated, fails. The key \<open>m1\<close> is the md5 of the one registered record, which is
  stored under its sha256 \<open>aa\<close>. Sent in every field of the payload, it is not found, and
  the registry is unchanged.
\<close>

theorem unregister_hash_value_counterexample:
  "unregister_instance \<lparr> ud_binary_id = Some ''m1'', ud_sha256 = Some ''m1'', ud_md5 = Some ''m1'' \<rparr>
     [(''aa'', inst_a)] = (Failure ''Instance not found'', [(''aa'', inst_a)])
   \<and> md5 inst_a = ''m1''"
  by (simp add: unregister_instance_def get_default_def inst_a_def)

text \<open>
  C7, amended. The payload carries up to three candidate keys, \<open>binary_id\<close>, \<open>sha256\<close> and
  \<open>md5\<close>. They are tried in that order against the identities under which records are
  registered (the hashes stored inside the records are not consulted); an empty candidate
  is skipped. The first candidate that is a registered identity is removed and returned,
  every other entry stays. If no candidate is a registered identity the not-found error is
  returned and the registry is unchanged.
\<close>

theorem unregister_instance_by_key:
  "unregister_instance data reg =
     (case List.find (\<lambda>k. k \<noteq> '''' \<and> k \<in> fst ` set reg) (unregister_candidates data) of
        Some k \<Rightarrow> (Success k, AList.delete k reg)
      | None \<Rightarrow> (Failure ''Instance not found'', reg))
   \<and> (\<forall>k reg'. unregister_instance data reg = (Success k, reg') \<longrightarrow>
         k \<in> fst ` set reg \<and> map_of reg' k = None
         \<and> (\<forall>k'. k' \<noteq> k \<longrightarrow> map_of reg' k' = map_of reg k'))
   \<and> (\<forall>msg reg'. unregister_instance data reg = (Failure msg, reg') \<longrightarrow>
         msg = ''Instance not found'' \<and> reg' = reg
         \<and> (\<forall>k\<in>set (unregister_candidates data). k = '''' \<or> k \<notin> fst ` set reg))"
proof (intro conjI allI impI)
  show "unregister_instance data reg =
     (case List.find (\<lambda>k. k \<noteq> '''' \<and> k \<in> fst ` set reg) (unregister_candidates data) of
        Some k \<Rightarrow> (Success k, AList.delete k reg)
      | None \<Rightarrow> (Failure ''Instance not found'', reg))"
    by (rule unregister_instance_find)
next
  fix k reg' assume s: "unregister_instance data reg = (Success k, reg')"
  then obtain k0 where f: "List.find (\<lambda>k. k \<noteq> '''' \<and> k \<in> fst ` set reg) (unregister_candidates data) = Some k0"
    unfolding unregister_instance_find
    by (cases "List.find (\<lambda>k. k \<noteq> '''' \<and> k \<in> fst ` set reg) (unregister_candidates data)") simp_all
  with s have e: "k = k0" "reg' = AList.delete k0 reg"
    unfolding unregister_instance_find by auto
  from find_Some_set [OF f] e show "k \<in> fst ` set reg" by simp
  from e show "map_of reg' k = None" by (simp add: delete_conv)
  fix k' assume "k' \<noteq> k"
  with e show "map_of reg' k' = map_of reg k'" by (simp add: delete_conv)
next
  fix msg reg' assume s: "unregister_instance data reg = (Failure msg, reg')"
  then have f: "List.find (\<lambda>k. k \<noteq> '''' \<and> k \<in> fst ` set reg) (unregister_candidates data) = None"
    unfolding unregister_instance_find
    by (cases "List.find (\<lambda>k. k \<noteq> '''' \<and> k \<in> fst ` set reg) (unregister_candidates data)") simp_all
  with s show "msg = ''Instance not found''" "reg' = reg"
    unfolding unregister_instance_find by auto
  from find_None_set [OF f]
  show "\<forall>k\<in>set (unregister_candidates data). k = '''' \<or> k \<notin> fst ` set reg" by blast
qed

theorem unregister_instance_by_key_witness:
  "unregister_instance \<lparr> ud_binary_id = None, ud_sha256 = Some ''aa'', ud_md5 = Some ''m1'' \<rparr>
     [(''aa'', inst_a)] = (Success ''aa'', [])
   \<and> unregister_instance \<lparr> ud_binary_id = None, ud_sha256 = Some '''', ud_md5 = Some ''m1'' \<rparr>
     [(''aa'', inst_a)] = (Failure ''Instance not found'', [(''aa'', inst_a)])"
  using unregister_instance_by_key [of "\<lparr> ud_binary_id = None, ud_sha256 = Some ''aa'',
          ud_md5 = Some ''m1'' \<rparr>" "[(''aa'', inst_a)]", THEN conjunct1]
    unregister_instance_by_key [of "\<lparr> ud_binary_id = None, ud_sha256 = Some '''',
          ud_md5 = Some ''m1'' \<rparr>" "[(''aa'', inst_a)]", THEN conjunct1]
  by (simp add: unregister_candidates_def get_default_def)

section \<open>Properties of the discovery scanner\<close>

text \<open>One pass of the loop: the exception of a failed probe is swallowed, the counter goes
  up exactly when the probe ends in a registration, and at most one identity is new.\<close>

lemma probe_port_step:
  "\<exists>reg'. try_except_pass (probe_port ev h p d reg) (d, reg)
           = Inr (d + (if probe_registers ev h p then 1 else 0), reg')
        \<and> fst ` set reg \<subseteq> fst ` set reg'
        \<and> card (fst ` set reg' - fst ` set reg) \<le> (if probe_registers ev h p then 1 else 0)"
proof (cases "fetch_metadata ev h p")
  case (Inl e)
  then show ?thesis
    by (simp add: try_except_pass_def probe_port_def probe_registers_def bindE_def)
next
  case (Inr found)
  show ?thesis
  proof (cases found)
    case None
    with Inr show ?thesis
      by (simp add: try_except_pass_def probe_port_def probe_registers_def bindE_def)
  next
    case (Some metadata)
    show ?thesis
    proof (cases "get_default (m_sha256 metadata) '''' \<noteq> '''' \<or> get_default (m_md5 metadata) '''' \<noteq> ''''")
      case False
      with Inr Some show ?thesis
        by (simp add: try_except_pass_def probe_port_def probe_registers_def bindE_def
            register_instance_def get_default_def)
    next
      case True
      have c: "card (insert k A - A) \<le> Suc 0" for k :: string and A
      proof -
        have "card (insert k A - A) \<le> card {k}"
          by (intro card_mono) auto
        then show ?thesis by simp
      qed
      from True Inr Some show ?thesis
        by (auto simp: try_except_pass_def probe_port_def probe_registers_def bindE_def
            register_instance_def get_default_def Let_def dom_update c)
    qed
  qed
qed

lemma discover_loop_count:
  "\<exists>reg'. discover_loop n ev h p d reg
           = Inr (d + length (filter (probe_registers ev h) (map (\<lambda>i. p + int i) [0..<n])), reg')
        \<and> fst ` set reg \<subseteq> fst ` set reg'
        \<and> card (fst ` set reg' - fst ` set reg)
            \<le> length (filter (probe_registers ev h) (map (\<lambda>i. p + int i) [0..<n]))"
proof (induction n arbitrary: p d reg)
  case 0
  then show ?case by simp
next
  case (Suc n)
  obtain reg1 where s:
    "try_except_pass (probe_port ev h p d reg) (d, reg)
       = Inr (d + (if probe_registers ev h p then 1 else 0), reg1)"
    "fst ` set reg \<subseteq> fst ` set reg1"
    "card (fst ` set reg1 - fst ` set reg) \<le> (if probe_registers ev h p then 1 else 0)"
    using probe_port_step [of ev h p d reg] by blast
  obtain reg' where r:
    "discover_loop n ev h (p + 1) (d + (if probe_registers ev h p then 1 else 0)) reg1
       = Inr (d + (if probe_registers ev h p then 1 else 0)
              + length (filter (probe_registers ev h) (map (\<lambda>i. (p + 1) + int i) [0..<n])), reg')"
    "fst ` set reg1 \<subseteq> fst ` set reg'"
    "card (fst ` set reg' - fst ` set reg1)
       \<le> length (filter (probe_registers ev h) (map (\<lambda>i. (p + 1) + int i) [0..<n]))"
    using Suc.IH [of "p + 1" "d + (if probe_registers ev h p then 1 else 0)" reg1] by blast
  have l: "map (\<lambda>i. p + int i) [0..<Suc n] = p # map (\<lambda>i. (p + 1) + int i) [0..<n]"
    by (simp add: map_upt_Suc del: upt_Suc)
  have "fst ` set reg' - fst ` set reg
          \<subseteq> (fst ` set reg' - fst ` set reg1) \<union> (fst ` set reg1 - fst ` set reg)"
    by blast
  then have "card (fst ` set reg' - fst ` set reg)
          \<le> card ((fst ` set reg' - fst ` set reg1) \<union> (fst ` set reg1 - fst ` set reg))"
    by (intro card_mono) simp_all
  also have "\<dots> \<le> card (fst ` set reg' - fst ` set reg1) + card (fst ` set reg1 - fst ` set reg)"
    by (rule card_Un_le)
  finally have c: "card (fst ` set reg' - fst ` set reg)
          \<le> card (fst ` set reg' - fst ` set reg1) + card (fst ` set reg1 - fst ` set reg)" .
  have f: "length (filter (probe_registers ev h) (map (\<lambda>i. p + int i) [0..<Suc n]))
          = (if probe_registers ev h p then 1 else 0)
            + length (filter (probe_registers ev h) (map (\<lambda>i. (p + 1) + int i) [0..<n]))"
    unfolding l by simp
  have "discover_loop (Suc n) ev h p d reg
          = Inr (d + length (filter (probe_registers ev h) (map (\<lambda>i. p + int i) [0..<Suc n])), reg')"
    unfolding f using s(1) r(1) by (simp add: bindE_def)
  moreover have "fst ` set reg \<subseteq> fst ` set reg'"
    using s(2) r(2) by blast
  moreover have "card (fst ` set reg' - fst ` set reg)
            \<le> length (filter (probe_registers ev h) (map (\<lambda>i. p + int i) [0..<Suc n]))"
    unfolding f using c s(3) r(3) by linarith
  ultimately show ?case by blast
qed

text \<open>
  C9, amended. For every environment, host, start port and try count the scanner returns
  (no exception leaves it, whatever the probes raise), and the count it returns is the
  number of ports of the range whose probe ended in a successful registration. A worker
  already registered counts again when it is refreshed, so the count is an upper bound on
  the number of identities that were not registered before, not that number.
\<close>

theorem discover_counts_registrations:
  "\<exists>reg'. discover_ida_instances ev h start_port max_tries reg
           = Inr (length (filter (probe_registers ev h)
                            (map (\<lambda>i. start_port + int i) [0..<nat max_tries])), reg')
        \<and> new_workers reg reg'
            \<le> length (filter (probe_registers ev h)
                         (map (\<lambda>i. start_port + int i) [0..<nat max_tries]))"
  using discover_loop_count [of "nat max_tries" ev h start_port 0 reg]
  by (auto simp: discover_ida_instances_def new_workers_def)

lemma clock_one_worker_env: "clock one_worker_env p = 1"
  by (simp add: one_worker_env_def)

lemma fetch_one_13338: "fetch_metadata one_worker_env h 13338 = Inr (Some metadata_a)"
  by (simp add: fetch_metadata_def one_worker_env_def idb_meta_reply_def bindE_def)

lemma fetch_one_13339: "fetch_metadata one_worker_env h 13339 = Inr None"
  by (simp add: fetch_metadata_def one_worker_env_def bindE_def)

lemma fetch_one_13340: "fetch_metadata one_worker_env h 13340 = Inl (TransportError ''Connection refused'')"
  by (simp add: fetch_metadata_def one_worker_env_def bindE_def)

text \<open>
  C9, as stated, fails. The worker answering on port 13338 is already registered under
  \<open>aa\<close>; ports 13339 and 13340 answer nothing usable. The scan returns 1 although the
  registry holds the same single identity as before.
\<close>

theorem discover_refresh_counterexample:
  "discover_ida_instances one_worker_env ''127.0.0.1'' 13338 3 [(''aa'', inst_a)]
     = Inr (1, [(''aa'', inst_a)])
   \<and> new_workers [(''aa'', inst_a)] [(''aa'', inst_a)] = 0"
  by (simp add: discover_ida_instances_def numeral_3_eq_3 try_except_pass_def probe_port_def
      fetch_one_13338 fetch_one_13339 fetch_one_13340 bindE_def register_instance_def
      metadata_a_def get_default_def inst_a_def new_workers_def clock_one_worker_env Let_def)

theorem discover_counts_registrations_witness:
  "fst (projr (discover_ida_instances one_worker_env ''127.0.0.1'' 13338 3 [])) = 1"
  using discover_counts_registrations [of one_worker_env "''127.0.0.1''" 13338 3 "[]"]
  by (auto simp: numeral_3_eq_3 probe_registers_def fetch_one_13338 fetch_one_13339
      fetch_one_13340 metadata_a_def get_default_def simp del: upt_Suc simp add: upt_rec)

section \<open>Properties of the routing gateway\<close>

text \<open>A request that is neither handled locally nor the capability listing reaches the
  routing code; the capability listing reaches its own branch.\<close>

lemma dispatch_proxy_routed:
  assumes "routed ev request ro m"
  shows "dispatch_proxy ev request reg = route_request ev m ro request reg"
  using assms
  by (auto simp: routed_def handled_locally_def dispatch_proxy_def)

lemma dispatch_proxy_tools_list:
  assumes "parse_request ev request = Inr (JObj ro)"
    and "map_of ro ''method'' = Some (JStr ''tools/list'')"
  shows "dispatch_proxy ev request reg = handle_tools_list ev ro request reg"
  using assms by (simp add: dispatch_proxy_def)

lemma extract_binary_keeps_id:
  "dict_get (snd (extract_binary m ro)) ''id'' d = dict_get ro ''id'' d"
  by (simp add: extract_binary_def dict_get_def update_conv
      split: option.splits json.splits)

lemma extract_binary_twice:
  "fst (extract_binary m (snd (extract_binary m ro))) = JNull"
  by (auto simp: extract_binary_def dict_get_def update_conv delete_conv
      split: option.splits json.splits)

text \<open>
  C1, as stated, fails. A \<open>tools/call\<close> request without identifier and without selector,
  with two workers registered, gets no reply at all: no error is returned.
\<close>

theorem ambiguous_notification_counterexample:
  "routed refusing_env (ReqDict call_without_id) call_without_id ''tools/call''
   \<and> fst (extract_binary ''tools/call'' call_without_id) = JNull
   \<and> get_instance_count two_workers = 2
   \<and> returned (dispatch_proxy refusing_env (ReqDict call_without_id) two_workers) = Inr None"
  by (simp add: dispatch_proxy_def parse_request_def call_without_id_def route_request_def
      extract_binary_def dict_get_def determine_target_def get_instance_count_def
      two_workers_def Let_def routed_def handled_locally_def)

text \<open>
  C1, amended. For every request that is neither handled locally nor the capability
  listing and that carries no selector value, when more than one worker is registered,
  nothing is forwarded and the registry is unchanged; if the request carries an identifier
  the gateway returns the application error (code -32000) that demands the selector, and if
  it carries none (a notification) the gateway returns no reply.
\<close>

theorem ambiguous_selection:
  assumes "routed ev request ro m"
    and "fst (extract_binary m ro) = JNull"
    and "1 < get_instance_count reg"
  shows "forwarded (dispatch_proxy ev request reg) = []
     \<and> registry_after (dispatch_proxy ev request reg) = reg
     \<and> returned (dispatch_proxy ev request reg)
         = Inr (if dict_get ro ''id'' JNull = JNull then None
                else Some (error_reply (dict_get ro ''id'' JNull) ambiguous_error))"
  using assms(2,3)
  by (simp add: dispatch_proxy_routed [OF assms(1)] route_request_def Let_def
      determine_target_def extract_binary_keeps_id)

lemma routed_call_with_id: "routed refusing_env (ReqDict call_with_id) call_with_id ''tools/call''"
  by (simp add: routed_def parse_request_def call_with_id_def handled_locally_def dict_get_def)

theorem ambiguous_selection_witness:
  "forwarded (dispatch_proxy refusing_env (ReqDict call_with_id) two_workers) = []
   \<and> returned (dispatch_proxy refusing_env (ReqDict call_with_id) two_workers)
       = Inr (Some (error_reply (JInt 7) ambiguous_error))"
proof -
  have b: "fst (extract_binary ''tools/call'' call_with_id) = JNull"
    by (simp add: extract_binary_def call_with_id_def dict_get_def)
  have c: "1 < get_instance_count two_workers"
    by (simp add: get_instance_count_def two_workers_def)
  have i: "dict_get call_with_id ''id'' JNull = JInt 7"
    by (simp add: call_with_id_def dict_get_def)
  show ?thesis
    using ambiguous_selection [OF routed_call_with_id b c] by (simp add: i)
qed

lemma discover_refusing: "discover_loop n refusing_env h p d reg = Inr (d, reg)"
  by (induction n arbitrary: p)
     (simp_all add: try_except_pass_def probe_port_def fetch_metadata_def refusing_env_def bindE_def)

lemma discover_refusing_10:
  "discover_ida_instances refusing_env h 13338 10 [] = Inr (0, [])"
  by (simp add: discover_ida_instances_def discover_refusing)

text \<open>
  C2. The code at a capability-listing notification (no identifier) whose forward fails,
  with one worker registered: the gateway returns an error object with a null identifier,
  where the claim asks for no reply.
\<close>

theorem tools_list_notification_error_reply:
  "returned (dispatch_proxy refusing_env (ReqDict tools_list_without_id) [(''aa'', inst_a)])
     = Inr (Some (JObj [(''jsonrpc'', JStr ''2.0''),
                        (''error'', JObj [(''code'', JInt (- 32000)),
                                          (''message'', JStr ''Failed to get tools: Connection refused'')]),
                        (''id'', JNull)]))
   \<and> dict_get tools_list_without_id ''id'' JNull = JNull"
  by (simp add: dispatch_proxy_def parse_request_def tools_list_without_id_def
      handle_tools_list_def get_instance_count_def dict_get_def bindE_def error_reply_def
      tools_error_def refusing_env_def)

text \<open>The three failure paths of the routing code all check the identifier: a routed
  request without one never gets an error object. It gets nothing, or the worker's own
  reply, or the exception of a selector that is no string leaves the gateway.\<close>

lemma routed_notification_no_error_reply:
  assumes "routed ev request ro m"
    and "dict_get ro ''id'' JNull = JNull"
  shows "returned (dispatch_proxy ev request reg) = Inr None
     \<or> (\<exists>e. returned (dispatch_proxy ev request reg) = Inl e)
     \<or> (\<exists>h p response.
           forward_to_instance ev (JObj (snd (extract_binary m ro))) h p = Inr response
           \<and> returned (dispatch_proxy ev request reg) = Inr (Some response))"
proof (cases "determine_target ev (fst (extract_binary m ro)) JNull reg")
  case (Inl e)
  then show ?thesis
    by (simp add: dispatch_proxy_routed [OF assms(1)] route_request_def Let_def
        extract_binary_keeps_id assms(2))
next
  case (Inr r)
  show ?thesis
  proof (cases r)
    case (Answer reply)
    with Inr have "reply = None"
      by (auto simp: determine_target_def bindE_def split: if_splits sum.splits option.splits)
    with Inr Answer show ?thesis
      by (simp add: dispatch_proxy_routed [OF assms(1)] route_request_def Let_def
          extract_binary_keeps_id assms(2))
  next
    case (Forward h p)
    with Inr show ?thesis
      by (cases "forward_to_instance ev (JObj (snd (extract_binary m ro))) h p")
         (auto simp: dispatch_proxy_routed [OF assms(1)] route_request_def Let_def
          extract_binary_keeps_id assms(2) forward_or_error_def)
  qed
qed

text \<open>
  C3. For every capability-listing request arriving at an empty registry, when the
  discovery scan of ports 13338 to 13347 on the configured host registers nothing, the
  gateway returns a reply of its own whose tool list has exactly one entry, named
  \<open>list_instances\<close> and described as having no IDA instances connected; it forwards
  nothing and the registry stays empty.
\<close>

theorem tools_list_without_workers:
  assumes "parse_request ev request = Inr (JObj ro)"
    and "map_of ro ''method'' = Some (JStr ''tools/list'')"
    and "discover_ida_instances ev (IDA_HOST ev) 13338 10 [] = Inr (d, [])"
  shows "returned (dispatch_proxy ev request [])
           = Inr (Some (no_instances_reply (dict_get ro ''id'' JNull)))
     \<and> forwarded (dispatch_proxy ev request []) = []
     \<and> registry_after (dispatch_proxy ev request []) = []
     \<and> (\<exists>t. reply_tools (no_instances_reply (dict_get ro ''id'' JNull)) = Some [t]
             \<and> py_getitem t ''name'' = Inr (JStr ''list_instances'')
             \<and> py_getitem t ''description''
                 = Inr (JStr (''List all connected IDA Pro instances with their binary information. ''
                              @ ''No IDA instances are currently connected.'')))"
  using assms(3)
  by (simp add: dispatch_proxy_tools_list [OF assms(1,2)] handle_tools_list_def
      get_instance_count_def no_instances_reply_def reply_tools_def)

theorem tools_list_without_workers_witness:
  "returned (dispatch_proxy refusing_env (ReqDict tools_list_with_id) [])
     = Inr (Some (no_instances_reply (JInt 3)))
   \<and> forwarded (dispatch_proxy refusing_env (ReqDict tools_list_with_id) []) = []"
proof -
  have p: "parse_request refusing_env (ReqDict tools_list_with_id) = Inr (JObj tools_list_with_id)"
    by (simp add: parse_request_def)
  have m: "map_of tools_list_with_id ''method'' = Some (JStr ''tools/list'')"
    by (simp add: tools_list_with_id_def)
  have i: "dict_get tools_list_with_id ''id'' JNull = JInt 3"
    by (simp add: tools_list_with_id_def dict_get_def)
  show ?thesis
    using tools_list_without_workers [OF p m discover_refusing_10] by (simp add: i)
qed

text \<open>
  C8, as stated, fails. The request arrives as a dict with the selector \<open>ls\<close> among the
  arguments. The worker is sent the request without the selector, and the dict the caller
  passed in has lost the selector too.
\<close>

theorem selector_popped_in_place_counterexample:
  "request_after (dispatch_proxy answering_env (ReqDict call_with_selector) [(''aa'', inst_a)])
     = ReqDict call_selector_removed
   \<and> call_selector_removed \<noteq> call_with_selector
   \<and> forwarded (dispatch_proxy answering_env (ReqDict call_with_selector) [(''aa'', inst_a)])
       = [(''127.0.0.1'', 13338, JObj call_selector_removed)]"
  by (simp add: dispatch_proxy_def parse_request_def call_with_selector_def
      call_selector_removed_def route_request_def extract_binary_def dict_get_def
      determine_target_def find_instance_def inst_a_def after_pop_def Let_def bindE_def)

text \<open>
  C8, amended. For every request that reaches the routing code, whatever is forwarded is
  the request object after the pop, and that object carries no selector where the selector
  is read. The pop acts on the parsed request object itself: a request that arrived as a
  dict is left with the selector removed, and a request that arrived as text is untouched.
\<close>

theorem selector_removed_before_forwarding:
  assumes "routed ev request ro m"
  shows "(\<forall>sent\<in>set (forwarded (dispatch_proxy ev request reg)).
            snd (snd sent) = JObj (snd (extract_binary m ro))
            \<and> fst (extract_binary m (snd (extract_binary m ro))) = JNull)
     \<and> (\<forall>d. request = ReqDict d \<longrightarrow>
            request_after (dispatch_proxy ev request reg) = ReqDict (snd (extract_binary m ro)))
     \<and> (\<forall>t. request = ReqText t \<longrightarrow>
            request_after (dispatch_proxy ev request reg) = ReqText t)"
  unfolding dispatch_proxy_routed [OF assms]
  by (auto simp: route_request_def Let_def after_pop_def extract_binary_twice
      split: sum.splits routing.splits)

lemma routed_text_with_selector:
  "routed answering_env (ReqText ''call with selector'') call_with_selector ''tools/call''"
  by (simp add: routed_def parse_request_def answering_env_def call_with_selector_def
      handled_locally_def dict_get_def)

lemma popped_call_with_selector:
  "snd (extract_binary ''tools/call'' call_with_selector) = call_selector_removed"
  by (simp add: extract_binary_def call_with_selector_def call_selector_removed_def dict_get_def)

theorem selector_removed_before_forwarding_witness:
  "routed answering_env (ReqText ''call with selector'') call_with_selector ''tools/call''
   \<and> fst (extract_binary ''tools/call'' call_with_selector) = JStr ''ls''
   \<and> forwarded (dispatch_proxy answering_env (ReqText ''call with selector'') [(''aa'', inst_a)])
       = [(''127.0.0.1'', 13338, JObj call_selector_removed)]
   \<and> fst (extract_binary ''tools/call'' call_selector_removed) = JNull
   \<and> request_after (dispatch_proxy answering_env (ReqText ''call with selector'') [(''aa'', inst_a)])
       = ReqText ''call with selector''"
proof -
  have f: "forwarded (dispatch_proxy answering_env (ReqText ''call with selector'') [(''aa'', inst_a)])
       = [(''127.0.0.1'', 13338, JObj call_selector_removed)]"
    by (simp add: dispatch_proxy_routed [OF routed_text_with_selector] route_request_def Let_def
        popped_call_with_selector)
       (simp add: extract_binary_def call_with_selector_def dict_get_def determine_target_def
        find_instance_def inst_a_def bindE_def)
  have b: "fst (extract_binary ''tools/call'' call_with_selector) = JStr ''ls''"
    by (simp add: extract_binary_def call_with_selector_def dict_get_def)
  show ?thesis
    using selector_removed_before_forwarding [OF routed_text_with_selector, of "[(''aa'', inst_a)]"]
    by (simp add: f b routed_text_with_selector popped_call_with_selector)
qed

text \<open>A capability-listing request is outside this: no selector is read from it, and it is
  forwarded as it was received.\<close>

lemma tools_list_forwarded_as_received:
  assumes "parse_request ev request = Inr (JObj ro)"
    and "map_of ro ''method'' = Some (JStr ''tools/list'')"
  shows "(\<forall>sent\<in>set (forwarded (dispatch_proxy ev request reg)). snd (snd sent) = JObj ro)
     \<and> request_after (dispatch_proxy ev request reg) = request"
  unfolding dispatch_proxy_tools_list [OF assms]
  by (auto simp: handle_tools_list_def split: sum.splits list.splits)

text \<open>\<open>find_instance\<close> on the empty string finds a record in any non-empty registry: the
  empty string is a substring of every path.\<close>

lemma find_instance_empty_selector:
  "reg \<noteq> [] \<Longrightarrow> \<exists>i. find_instance (JStr '''') reg = Inr (Some i)"
  by (cases reg) (auto simp: find_instance_def split: option.splits)

text \<open>
  C10. For every routed request whose selector is the empty string, the target is chosen
  as for a request without selector: with one worker registered the request goes to that
  worker, with none it goes to the default address, and with more than one nothing is
  forwarded and the ambiguous-selection answer is given (the error for a request with an
  identifier, nothing for a notification), although \<open>find_instance\<close> on the empty string
  would have returned a record.
\<close>

theorem empty_selector_treated_as_absent:
  assumes "routed ev request ro m"
    and "fst (extract_binary m ro) = JStr ''''"
  shows "determine_target ev (JStr '''') (dict_get ro ''id'' JNull) reg
           = determine_target ev JNull (dict_get ro ''id'' JNull) reg
     \<and> (\<forall>kv. reg = [kv] \<longrightarrow>
           forwarded (dispatch_proxy ev request reg)
             = [(host (snd kv), port (snd kv), JObj (snd (extract_binary m ro)))])
     \<and> (1 < length reg \<longrightarrow>
           forwarded (dispatch_proxy ev request reg) = []
           \<and> returned (dispatch_proxy ev request reg)
               = Inr (if dict_get ro ''id'' JNull = JNull then None
                      else Some (error_reply (dict_get ro ''id'' JNull) ambiguous_error))
           \<and> (\<exists>i. find_instance (JStr '''') reg = Inr (Some i)))
     \<and> (reg = [] \<longrightarrow>
           forwarded (dispatch_proxy ev request reg)
             = [(IDA_HOST ev, IDA_PORT ev, JObj (snd (extract_binary m ro)))])"
proof (intro conjI allI impI)
  show "determine_target ev (JStr '''') (dict_get ro ''id'' JNull) reg
           = determine_target ev JNull (dict_get ro ''id'' JNull) reg"
    by (simp add: determine_target_def)
next
  fix kv assume "reg = [kv]"
  then show "forwarded (dispatch_proxy ev request reg)
             = [(host (snd kv), port (snd kv), JObj (snd (extract_binary m ro)))]"
    using assms(2)
    by (simp add: dispatch_proxy_routed [OF assms(1)] route_request_def Let_def
        determine_target_def get_instance_count_def get_single_instance_def)
next
  assume l: "1 < length reg"
  then show "forwarded (dispatch_proxy ev request reg) = []"
    using assms(2)
    by (simp add: dispatch_proxy_routed [OF assms(1)] route_request_def Let_def
        determine_target_def get_instance_count_def extract_binary_keeps_id)
  from l show "returned (dispatch_proxy ev request reg)
               = Inr (if dict_get ro ''id'' JNull = JNull then None
                      else Some (error_reply (dict_get ro ''id'' JNull) ambiguous_error))"
    using assms(2)
    by (simp add: dispatch_proxy_routed [OF assms(1)] route_request_def Let_def
        determine_target_def get_instance_count_def extract_binary_keeps_id)
  from l have "reg \<noteq> []" by auto
  then show "\<exists>i. find_instance (JStr '''') reg = Inr (Some i)"
    by (rule find_instance_empty_selector)
next
  assume "reg = []"
  then show "forwarded (dispatch_proxy ev request reg)
             = [(IDA_HOST ev, IDA_PORT ev, JObj (snd (extract_binary m ro)))]"
    using assms(2)
    by (simp add: dispatch_proxy_routed [OF assms(1)] route_request_def Let_def
        determine_target_def get_instance_count_def)
qed

lemma routed_empty_selector:
  "routed answering_env (ReqDict call_empty_selector) call_empty_selector ''tools/call''"
  by (simp add: routed_def parse_request_def call_empty_selector_def
      handled_locally_def dict_get_def)

lemma popped_empty_selector:
  "snd (extract_binary ''tools/call'' call_empty_selector) = call_selector_removed"
  by (simp add: extract_binary_def call_empty_selector_def call_selector_removed_def dict_get_def)

theorem empty_selector_treated_as_absent_witness:
  "fst (extract_binary ''tools/call'' call_empty_selector) = JStr ''''
   \<and> forwarded (dispatch_proxy answering_env (ReqDict call_empty_selector) [(''bb'', inst_b)])
       = [(''127.0.0.1'', 13339, JObj call_selector_removed)]
   \<and> forwarded (dispatch_proxy answering_env (ReqDict call_empty_selector) two_workers) = []
   \<and> returned (dispatch_proxy answering_env (ReqDict call_empty_selector) two_workers)
       = Inr (Some (error_reply (JInt 7) ambiguous_error))
   \<and> find_instance (JStr '''') two_workers = Inr (Some inst_a)
   \<and> forwarded (dispatch_proxy answering_env (ReqDict call_empty_selector) [])
       = [(''127.0.0.1'', 13337, JObj call_selector_removed)]"
proof -
  have b: "fst (extract_binary ''tools/call'' call_empty_selector) = JStr ''''"
    by (simp add: extract_binary_def call_empty_selector_def dict_get_def)
  have i: "dict_get call_empty_selector ''id'' JNull = JInt 7"
    by (simp add: call_empty_selector_def dict_get_def)
  have f: "find_instance (JStr '''') two_workers = Inr (Some inst_a)"
    by (simp add: find_instance_def two_workers_def inst_a_def inst_b_def)
  have e: "IDA_HOST answering_env = ''127.0.0.1''" "IDA_PORT answering_env = 13337"
    by (simp_all add: answering_env_def)
  have h: "host inst_b = ''127.0.0.1''" "port inst_b = 13339"
    by (simp_all add: inst_b_def)
  have l: "1 < length two_workers"
    by (simp add: two_workers_def)
  note t = empty_selector_treated_as_absent [OF routed_empty_selector b]
  from t [of "[(''bb'', inst_b)]"]
  have one: "forwarded (dispatch_proxy answering_env (ReqDict call_empty_selector) [(''bb'', inst_b)])
       = [(''127.0.0.1'', 13339, JObj call_selector_removed)]"
    by (simp add: popped_empty_selector h)
  from t [of two_workers] l
  have two: "forwarded (dispatch_proxy answering_env (ReqDict call_empty_selector) two_workers) = []
     \<and> returned (dispatch_proxy answering_env (ReqDict call_empty_selector) two_workers)
       = Inr (Some (error_reply (JInt 7) ambiguous_error))"
    by (simp add: i)
  from t [of "[]"]
  have zero: "forwarded (dispatch_proxy answering_env (ReqDict call_empty_selector) [])
       = [(''127.0.0.1'', 13337, JObj call_selector_removed)]"
    by (simp add: popped_empty_selector e)
  from b f one two zero show ?thesis by simp
qed

section \<open>Properties of the schema augmenter\<close>

text \<open>Sequencing and the loop over a list.\<close>

lemma bindE_Inr_iff: "bindE m f = Inr y \<longleftrightarrow> (\<exists>x. m = Inr x \<and> f x = Inr y)"
  by (cases m) (simp_all add: bindE_def)

lemma bindE_Inr [simp]: "bindE (Inr x) f = f x"
  by (simp add: bindE_def)

lemma bindE_Inl [simp]: "bindE (Inl e) f = Inl e"
  by (simp add: bindE_def)

lemma mapE_Inr_length: "mapE f xs = Inr ys \<Longrightarrow> length ys = length xs"
  by (induction xs arbitrary: ys) (auto simp: bindE_Inr_iff)

lemma mapE_Inr_nth: "mapE f xs = Inr ys \<Longrightarrow> i < length xs \<Longrightarrow> f (xs ! i) = Inr (ys ! i)"
proof (induction xs arbitrary: ys i)
  case Nil
  then show ?case by simp
next
  case (Cons x xs)
  then show ?case by (cases i) (auto simp: bindE_Inr_iff)
qed

lemma mapE_append:
  "mapE f (xs @ ys) = bindE (mapE f xs) (\<lambda>xs'. bindE (mapE f ys) (\<lambda>ys'. Inr (xs' @ ys')))"
proof (induction xs)
  case Nil
  show ?case by (cases "mapE f ys") simp_all
next
  case (Cons x xs)
  show ?case
    by (cases "f x"; cases "mapE f xs"; cases "mapE f ys") (simp_all add: Cons)
qed

text \<open>One tool: either its schema declares no property set and it is left alone, or the
  selector property is set inside its property set and nothing else changes.\<close>

lemma add_binary_to_tool_cases:
  assumes "add_binary_to_tool tool = Inr tool'"
  shows "(\<not> declares_properties tool \<and> tool' = tool)
     \<or> (\<exists>t s ps. declares_properties tool \<and> tool = JObj t
            \<and> map_of t ''inputSchema'' = Some (JObj s)
            \<and> map_of s ''properties'' = Some (JObj ps)
            \<and> tool' = JObj (AList.update ''inputSchema''
                              (JObj (AList.update ''properties''
                                       (JObj (AList.update ''binary'' binary_property ps)) s)) t))"
proof (cases "py_contains ''inputSchema'' tool")
  case (Inl e)
  with assms show ?thesis by (simp add: add_binary_to_tool_def)
next
  case c1: (Inr has_schema)
  show ?thesis
  proof (cases has_schema)
    case False
    with c1 assms show ?thesis
      by (simp add: add_binary_to_tool_def declares_properties_def)
  next
    case True
    with c1 assms obtain schema where g1: "py_getitem tool ''inputSchema'' = Inr schema"
      by (cases "py_getitem tool ''inputSchema''") (simp_all add: add_binary_to_tool_def)
    then obtain t where t: "tool = JObj t" "map_of t ''inputSchema'' = Some schema"
      by (cases tool) (auto split: option.splits)
    from c1 True g1 assms obtain has_properties
      where c2: "py_contains ''properties'' schema = Inr has_properties"
      by (cases "py_contains ''properties'' schema") (simp_all add: add_binary_to_tool_def)
    show ?thesis
    proof (cases has_properties)
      case False
      with c1 True g1 c2 assms show ?thesis
        by (simp add: add_binary_to_tool_def declares_properties_def)
    next
      case hp: True
      with c1 True g1 c2 assms obtain properties
        where g2: "py_getitem schema ''properties'' = Inr properties"
        by (cases "py_getitem schema ''properties''") (simp_all add: add_binary_to_tool_def)
      then obtain s where s: "schema = JObj s" "map_of s ''properties'' = Some properties"
        by (cases schema) (auto split: option.splits)
      from c1 True g1 c2 hp g2 assms obtain ps where ps: "properties = JObj ps"
        by (cases properties) (simp_all add: add_binary_to_tool_def)
      from c1 True g1 c2 hp g2 assms t s ps show ?thesis
        by (simp add: add_binary_to_tool_def declares_properties_def)
    qed
  qed
qed

lemma add_binary_to_tool_name:
  assumes "add_binary_to_tool tool = Inr tool'"
  shows "py_getitem tool' ''name'' = py_getitem tool ''name''"
  using add_binary_to_tool_cases [OF assms] by (auto simp: update_conv)

lemma add_binary_to_tool_again:
  assumes "add_binary_to_tool tool = Inr tool'"
  shows "add_binary_to_tool tool' = Inr tool'"
  using add_binary_to_tool_cases [OF assms]
proof (elim disjE conjE exE)
  assume "\<not> declares_properties tool" "tool' = tool"
  with assms show ?thesis by simp
next
  fix t s ps
  assume "tool' = JObj (AList.update ''inputSchema''
                              (JObj (AList.update ''properties''
                                       (JObj (AList.update ''binary'' binary_property ps)) s)) t)"
  then show ?thesis
    by (simp add: add_binary_to_tool_def update_conv update_triv)
qed

lemma tool_name_after:
  assumes "add_binary_to_tool tool = Inr tool'"
  shows "tool_name tool' = tool_name tool"
  by (simp add: tool_name_def add_binary_to_tool_name [OF assms])

lemma tool_name_list_instances:
  "tool_name tool = Inr n \<Longrightarrow> n = JStr ''list_instances'' \<longleftrightarrow> py_getitem tool ''name'' = Inr (JStr ''list_instances'')"
  by (cases "py_getitem tool ''name''") (auto simp: tool_name_def split: json.splits)

text \<open>A reply that carries a tool list: the augmenter maps the loop body over the list,
  collects the names, and appends the enumeration tool when its name is missing.\<close>

lemma reply_tools_SomeD:
  assumes "reply_tools reply = Some ts"
  obtains r res where "reply = JObj r" "map_of r ''result'' = Some (JObj res)"
    "map_of res ''tools'' = Some (JArr ts)"
  using assms by (auto simp: reply_tools_def split: json.splits option.splits)

lemma reply_tools_with_tools:
  "reply_tools reply = Some ts \<Longrightarrow> reply_tools (with_tools reply ts') = Some ts'"
  by (erule reply_tools_SomeD) (simp add: with_tools_def reply_tools_def update_conv)

lemma with_tools_twice:
  "reply_tools reply = Some ts \<Longrightarrow> with_tools (with_tools reply ts') ts'' = with_tools reply ts''"
  by (erule reply_tools_SomeD) (simp add: with_tools_def update_conv)

lemma add_binary_param_to_schema_unfold:
  assumes "reply_tools reply = Some ts"
  shows "add_binary_param_to_schema reply =
     bindE (mapE add_binary_to_tool ts) (\<lambda>ts1.
     bindE (mapE tool_name ts1) (\<lambda>existing_names.
       Inr (with_tools reply (if JStr ''list_instances'' \<notin> set existing_names
                              then ts1 @ [list_instances_tool] else ts1))))"
proof -
  from assms obtain r res where r: "reply = JObj r" "map_of r ''result'' = Some (JObj res)"
    "map_of res ''tools'' = Some (JArr ts)"
    by (rule reply_tools_SomeD)
  show ?thesis
  proof (cases "mapE add_binary_to_tool ts")
    case (Inl e)
    with r show ?thesis by (simp add: add_binary_param_to_schema_def)
  next
    case ts1: (Inr ts1)
    show ?thesis
    proof (cases "mapE tool_name ts1")
      case (Inl e)
      with r ts1 show ?thesis by (simp add: add_binary_param_to_schema_def)
    next
      case (Inr names)
      with r ts1 show ?thesis
        by (simp add: add_binary_param_to_schema_def with_tools_def)
    qed
  qed
qed

text \<open>The loop over the tools keeps every name, so it keeps the number of enumeration
  entries, and a second run of it changes nothing.\<close>

lemma mapE_add_again:
  "mapE add_binary_to_tool ts = Inr ts1 \<Longrightarrow> mapE add_binary_to_tool ts1 = Inr ts1"
  by (induction ts arbitrary: ts1) (auto simp: bindE_Inr_iff add_binary_to_tool_again)

lemma mapE_tool_name_after:
  "mapE add_binary_to_tool ts = Inr ts1 \<Longrightarrow> mapE tool_name ts1 = mapE tool_name ts"
  by (induction ts arbitrary: ts1) (auto simp: bindE_Inr_iff tool_name_after)

lemma enumeration_entries_after:
  "mapE add_binary_to_tool ts = Inr ts1 \<Longrightarrow> enumeration_entries ts1 = enumeration_entries ts"
  by (induction ts arbitrary: ts1)
     (auto simp: bindE_Inr_iff enumeration_entries_def add_binary_to_tool_name)

lemma names_list_instances:
  "mapE tool_name ts = Inr names \<Longrightarrow>
     JStr ''list_instances'' \<in> set names \<longleftrightarrow> 0 < enumeration_entries ts"
proof (induction ts arbitrary: names)
  case Nil
  then show ?case by (simp add: enumeration_entries_def)
next
  case (Cons t ts)
  then obtain n ns where n: "tool_name t = Inr n" "mapE tool_name ts = Inr ns" "names = n # ns"
    by (auto simp: bindE_Inr_iff)
  from Cons.IH [OF n(2)] tool_name_list_instances [OF n(1)] n(3)
  show ?case by (auto simp: enumeration_entries_def)
qed

lemma enumeration_entries_append:
  "enumeration_entries (ts @ ts') = enumeration_entries ts + enumeration_entries ts'"
  by (simp add: enumeration_entries_def)

lemma list_instances_tool_entry: "enumeration_entries [list_instances_tool] = 1"
  by (simp add: enumeration_entries_def list_instances_tool_def)

lemma list_instances_tool_name: "tool_name list_instances_tool = Inr (JStr ''list_instances'')"
  by (simp add: tool_name_def list_instances_tool_def)

lemma list_instances_tool_add:
  "add_binary_to_tool list_instances_tool = Inr list_instances_with_selector"
  by (simp add: add_binary_to_tool_def list_instances_tool_def list_instances_with_selector_def)

lemma list_instances_with_selector_add:
  "add_binary_to_tool list_instances_with_selector = Inr list_instances_with_selector"
  using add_binary_to_tool_again [OF list_instances_tool_add] .

text \<open>The first pass, and a pass over a list that already has the enumeration entry.\<close>

lemma first_pass:
  assumes "reply_tools reply = Some ts"
    and "add_binary_param_to_schema reply = Inr reply'"
  obtains ts1 names where "mapE add_binary_to_tool ts = Inr ts1"
    and "mapE tool_name ts = Inr names"
    and "reply' = with_tools reply (if 0 < enumeration_entries ts then ts1
                                     else ts1 @ [list_instances_tool])"
proof -
  from assms obtain ts1 names where a: "mapE add_binary_to_tool ts = Inr ts1"
    and b: "mapE tool_name ts1 = Inr names"
    and c: "reply' = with_tools reply (if JStr ''list_instances'' \<notin> set names
                                       then ts1 @ [list_instances_tool] else ts1)"
    unfolding add_binary_param_to_schema_unfold [OF assms(1)]
    by (auto simp: bindE_Inr_iff)
  from b have b': "mapE tool_name ts = Inr names"
    by (simp add: mapE_tool_name_after [OF a])
  from c names_list_instances [OF b']
  have "reply' = with_tools reply (if 0 < enumeration_entries ts then ts1
                                     else ts1 @ [list_instances_tool])"
    by simp
  with a b' show ?thesis by (rule that)
qed

lemma pass_with_entry:
  assumes "reply_tools reply = Some ts"
    and "0 < enumeration_entries ts"
    and "mapE add_binary_to_tool ts = Inr ts1"
    and "mapE tool_name ts = Inr names"
  shows "add_binary_param_to_schema reply = Inr (with_tools reply ts1)"
proof -
  have "mapE tool_name ts1 = Inr names"
    using mapE_tool_name_after [OF assms(3)] assms(4) by simp
  moreover have "JStr ''list_instances'' \<in> set names"
    using names_list_instances [OF assms(4)] assms(2) by simp
  ultimately show ?thesis
    by (simp add: add_binary_param_to_schema_unfold [OF assms(1)] assms(3))
qed

text \<open>
  C4, as stated, fails in its last part. A reply with an empty tool list gets the
  enumeration descriptor appended, with an empty property set. Augmenting that reply again
  duplicates nothing, but the loop now visits the appended descriptor and gives it the
  selector property: the second result differs from the first.
\<close>

theorem augmentation_twice_counterexample:
  "add_binary_param_to_schema empty_tools_reply = Inr empty_tools_augmented
   \<and> add_binary_param_to_schema empty_tools_augmented = Inr empty_tools_augmented_twice
   \<and> empty_tools_augmented_twice \<noteq> empty_tools_augmented"
proof (intro conjI)
  have t0: "reply_tools empty_tools_reply = Some []"
    by (simp add: reply_tools_def empty_tools_reply_def)
  show "add_binary_param_to_schema empty_tools_reply = Inr empty_tools_augmented"
    by (simp add: add_binary_param_to_schema_unfold [OF t0])
       (simp add: with_tools_def empty_tools_reply_def empty_tools_augmented_def)
  have t1: "reply_tools empty_tools_augmented = Some [list_instances_tool]"
    by (simp add: reply_tools_def empty_tools_augmented_def)
  show "add_binary_param_to_schema empty_tools_augmented = Inr empty_tools_augmented_twice"
    by (simp add: add_binary_param_to_schema_unfold [OF t1] list_instances_tool_add)
       (simp add: tool_name_def list_instances_with_selector_def with_tools_def
        empty_tools_augmented_def empty_tools_augmented_twice_def)
  show "empty_tools_augmented_twice \<noteq> empty_tools_augmented"
    by (simp add: empty_tools_augmented_twice_def empty_tools_augmented_def
        list_instances_with_selector_def list_instances_tool_def)
qed

text \<open>The loop body computes \<open>with_selector\<close>: besides the selector property nothing in a
  descriptor changes.\<close>

lemma with_selector_unchanged:
  "\<not> declares_properties tool \<Longrightarrow> with_selector tool = tool"
  by (auto simp: with_selector_def declares_properties_def split: json.split option.split)

lemma add_binary_to_tool_with_selector:
  assumes "add_binary_to_tool tool = Inr tool'"
  shows "tool' = with_selector tool"
  using add_binary_to_tool_cases [OF assms]
  by (auto simp: with_selector_unchanged) (simp add: with_selector_def)

lemma mapE_add_with_selector:
  "mapE add_binary_to_tool ts = Inr ts1 \<Longrightarrow> ts1 = map with_selector ts"
  by (induction ts arbitrary: ts1) (auto simp: bindE_Inr_iff add_binary_to_tool_with_selector)

lemma with_selector_frame:
  assumes "add_binary_to_tool tool = Inr tool'"
  shows "(\<forall>k. k \<noteq> ''inputSchema'' \<longrightarrow> py_getitem (with_selector tool) k = py_getitem tool k)
     \<and> (\<forall>k. k \<noteq> ''properties'' \<longrightarrow> schema_entry (with_selector tool) k = schema_entry tool k)
     \<and> (\<forall>k. k \<noteq> ''binary'' \<longrightarrow> tool_property (with_selector tool) k = tool_property tool k)
     \<and> (declares_properties tool \<longrightarrow> tool_property (with_selector tool) ''binary'' = Inr binary_property)
     \<and> (\<not> declares_properties tool \<longrightarrow> with_selector tool = tool)"
  using add_binary_to_tool_cases [OF assms]
proof (elim disjE conjE exE)
  assume "\<not> declares_properties tool" "tool' = tool"
  then show ?thesis by (simp add: with_selector_unchanged)
next
  fix t s ps
  assume d: "declares_properties tool" and t: "tool = JObj t"
    and s: "map_of t ''inputSchema'' = Some (JObj s)"
    and ps: "map_of s ''properties'' = Some (JObj ps)"
  have w: "with_selector tool = JObj (AList.update ''inputSchema''
                            (JObj (AList.update ''properties''
                                     (JObj (AList.update ''binary'' binary_property ps)) s)) t)"
    by (simp add: with_selector_def t s ps)
  show ?thesis
    unfolding w using d
    by (simp add: t s ps schema_entry_def tool_property_def update_conv)
qed

lemma with_selector_list_instances_tool:
  "with_selector list_instances_tool = list_instances_with_selector"
  using add_binary_to_tool_with_selector [OF list_instances_tool_add] by simp

lemma list_instances_with_selector_differs:
  "list_instances_with_selector \<noteq> list_instances_tool"
  by (simp add: list_instances_with_selector_def list_instances_tool_def)

lemma with_tools_inject:
  assumes "reply_tools reply = Some ts"
  shows "with_tools reply a = with_tools reply b \<longleftrightarrow> a = b"
proof
  assume "with_tools reply a = with_tools reply b"
  then have "reply_tools (with_tools reply a) = reply_tools (with_tools reply b)" by simp
  then show "a = b" by (simp add: reply_tools_with_tools [OF assms])
qed simp

lemma with_tools_frame:
  assumes "reply_tools reply = Some ts"
  shows "k \<noteq> ''result'' \<Longrightarrow> py_getitem (with_tools reply a) k = py_getitem reply k"
  using assms
  by (elim reply_tools_SomeD) (simp add: with_tools_def update_conv)

text \<open>
  C4, amended. For every reply that carries a tool list and on which augmentation
  succeeds, the augmented reply is the reply with a new tool list and nothing else changed.
  The new list holds the worker's descriptors in their order, each with the selector
  property (type string) set in its property set if its input schema declares one and
  otherwise as it was, every other property, every other entry of the schema (the list of
  required properties among them) and every other entry of the descriptor unchanged; one
  enumeration descriptor is appended exactly when the worker advertised none. So the
  number of entries named \<open>list_instances\<close> is the number the worker advertised, or one if
  it advertised none: exactly one whenever the worker advertised at most one. Augmenting
  the augmented reply equals augmenting once whenever the worker advertised an enumeration
  entry. When it advertised none, the second pass duplicates nothing (still one
  enumeration entry, the worker's descriptors as after the first pass) but differs from
  the first in the appended enumeration descriptor, which now receives the selector
  property; a third pass changes nothing.
\<close>

theorem augmentation:
  assumes "reply_tools reply = Some ts"
    and "add_binary_param_to_schema reply = Inr reply'"
  shows "reply' = with_tools reply (map with_selector ts
                     @ (if enumeration_entries ts = 0 then [list_instances_tool] else []))
     \<and> reply_tools reply' = Some (map with_selector ts
                     @ (if enumeration_entries ts = 0 then [list_instances_tool] else []))
     \<and> (\<forall>tool\<in>set ts.
           (\<forall>k. k \<noteq> ''inputSchema'' \<longrightarrow> py_getitem (with_selector tool) k = py_getitem tool k)
           \<and> (\<forall>k. k \<noteq> ''properties'' \<longrightarrow> schema_entry (with_selector tool) k = schema_entry tool k)
           \<and> (\<forall>k. k \<noteq> ''binary'' \<longrightarrow> tool_property (with_selector tool) k = tool_property tool k)
           \<and> (declares_properties tool \<longrightarrow>
                 tool_property (with_selector tool) ''binary'' = Inr binary_property)
           \<and> (\<not> declares_properties tool \<longrightarrow> with_selector tool = tool))
     \<and> enumeration_entries (map with_selector ts
            @ (if enumeration_entries ts = 0 then [list_instances_tool] else []))
         = max 1 (enumeration_entries ts)
     \<and> (0 < enumeration_entries ts \<longrightarrow> add_binary_param_to_schema reply' = Inr reply')
     \<and> (enumeration_entries ts = 0 \<longrightarrow>
           add_binary_param_to_schema reply'
             = Inr (with_tools reply (map with_selector ts @ [with_selector list_instances_tool]))
           \<and> with_tools reply (map with_selector ts @ [with_selector list_instances_tool]) \<noteq> reply'
           \<and> with_selector list_instances_tool \<noteq> list_instances_tool
           \<and> enumeration_entries (map with_selector ts @ [with_selector list_instances_tool]) = 1
           \<and> add_binary_param_to_schema
                (with_tools reply (map with_selector ts @ [with_selector list_instances_tool]))
               = Inr (with_tools reply (map with_selector ts @ [with_selector list_instances_tool])))"
proof -
  from assms obtain ts1 names where a: "mapE add_binary_to_tool ts = Inr ts1"
    and n: "mapE tool_name ts = Inr names"
    and r': "reply' = with_tools reply (if 0 < enumeration_entries ts then ts1
                                        else ts1 @ [list_instances_tool])"
    by (rule first_pass)
  have ts1: "ts1 = map with_selector ts"
    by (rule mapE_add_with_selector [OF a])
  define ts' where "ts' = map with_selector ts
                     @ (if enumeration_entries ts = 0 then [list_instances_tool] else [])"
  define ts2 where "ts2 = map with_selector ts @ [with_selector list_instances_tool]"
  have r: "reply' = with_tools reply ts'"
    unfolding r' ts'_def ts1 by simp
  have t': "reply_tools reply' = Some ts'"
    unfolding r by (rule reply_tools_with_tools [OF assms(1)])
  have e1: "enumeration_entries ts1 = enumeration_entries ts"
    by (rule enumeration_entries_after [OF a])
  have n1: "mapE tool_name ts1 = Inr names"
    using mapE_tool_name_after [OF a] n by simp
  have a1: "mapE add_binary_to_tool ts1 = Inr ts1"
    by (rule mapE_add_again [OF a])
  have tools: "(\<forall>k. k \<noteq> ''inputSchema'' \<longrightarrow> py_getitem (with_selector tool) k = py_getitem tool k)
           \<and> (\<forall>k. k \<noteq> ''properties'' \<longrightarrow> schema_entry (with_selector tool) k = schema_entry tool k)
           \<and> (\<forall>k. k \<noteq> ''binary'' \<longrightarrow> tool_property (with_selector tool) k = tool_property tool k)
           \<and> (declares_properties tool \<longrightarrow>
                 tool_property (with_selector tool) ''binary'' = Inr binary_property)
           \<and> (\<not> declares_properties tool \<longrightarrow> with_selector tool = tool)"
    if "tool \<in> set ts" for tool
  proof -
    from that obtain i where i: "i < length ts" "ts ! i = tool"
      by (auto simp: in_set_conv_nth)
    from mapE_Inr_nth [OF a i(1)] i(2) have "add_binary_to_tool tool = Inr (ts1 ! i)" by simp
    then show ?thesis by (rule with_selector_frame)
  qed
  have e0: "enumeration_entries [] = 0"
    by (simp add: enumeration_entries_def)
  have e': "enumeration_entries ts' = max 1 (enumeration_entries ts)"
    using e1 by (simp add: ts'_def ts1 enumeration_entries_append list_instances_tool_entry e0)
  have idem: "add_binary_param_to_schema reply' = Inr reply'" if p: "0 < enumeration_entries ts"
  proof -
    from p have eq: "ts' = ts1" by (simp add: ts'_def ts1)
    from p e1 have pos: "0 < enumeration_entries ts1" by simp
    have t1: "reply_tools reply' = Some ts1" using t' eq by simp
    from pass_with_entry [OF t1 pos a1 n1] r eq
    show ?thesis by (simp add: with_tools_twice [OF assms(1)])
  qed
  have second: "add_binary_param_to_schema reply' = Inr (with_tools reply ts2)"
    and differs: "with_tools reply ts2 \<noteq> reply'"
    and e2: "enumeration_entries ts2 = 1"
    and third: "add_binary_param_to_schema (with_tools reply ts2) = Inr (with_tools reply ts2)"
    if z: "enumeration_entries ts = 0"
  proof -
    from z have eq: "ts' = ts1 @ [list_instances_tool]" by (simp add: ts'_def ts1)
    have eq2: "ts2 = ts1 @ [list_instances_with_selector]"
      by (simp add: ts2_def ts1 with_selector_list_instances_tool)
    have pos: "0 < enumeration_entries ts'"
      using e' by simp
    have a': "mapE add_binary_to_tool ts' = Inr ts2"
      by (simp add: eq eq2 a1 mapE_append list_instances_tool_add)
    have n': "mapE tool_name ts' = Inr (names @ [JStr ''list_instances''])"
      by (simp add: eq n1 mapE_append list_instances_tool_name)
    show s: "add_binary_param_to_schema reply' = Inr (with_tools reply ts2)"
      using pass_with_entry [OF t' pos a' n'] r with_tools_twice [OF assms(1)] by simp
    show "with_tools reply ts2 \<noteq> reply'"
      unfolding r with_tools_inject [OF assms(1)] eq eq2
      by (simp add: list_instances_with_selector_differs)
    have e2': "enumeration_entries ts2 = enumeration_entries ts'"
      by (rule enumeration_entries_after [OF a'])
    with e' z show "enumeration_entries ts2 = 1" by simp
    have t2: "reply_tools (with_tools reply ts2) = Some ts2"
      by (rule reply_tools_with_tools [OF assms(1)])
    have "mapE tool_name ts2 = Inr (names @ [JStr ''list_instances''])"
      using mapE_tool_name_after [OF a'] n' by simp
    from pass_with_entry [OF t2 _ mapE_add_again [OF a'] this] pos e2'
    show "add_binary_param_to_schema (with_tools reply ts2) = Inr (with_tools reply ts2)"
      by (simp add: with_tools_twice [OF assms(1)])
  qed
  have w: "with_selector list_instances_tool \<noteq> list_instances_tool"
    by (simp add: with_selector_list_instances_tool list_instances_with_selector_differs)
  from r t' tools e' idem second differs e2 third w show ?thesis
    unfolding ts'_def ts2_def by blast
qed

lemma declares_decompile: "declares_properties decompile_tool"
  by (simp add: declares_properties_def decompile_tool_def)

theorem augmentation_witness:
  "reply_tools worker_tools_reply = Some [decompile_tool, list_instances_tool]
   \<and> add_binary_param_to_schema worker_tools_reply = Inr worker_tools_augmented
   \<and> declares_properties decompile_tool
   \<and> tool_property (with_selector decompile_tool) ''binary'' = Inr binary_property
   \<and> tool_property (with_selector decompile_tool) ''addr'' = Inr (JObj [(''type'', JStr ''string'')])
   \<and> enumeration_entries [decompile_tool, list_instances_tool] = 1
   \<and> add_binary_param_to_schema worker_tools_augmented = Inr worker_tools_augmented
   \<and> reply_tools empty_tools_reply = Some []
   \<and> add_binary_param_to_schema empty_tools_reply = Inr empty_tools_augmented
   \<and> add_binary_param_to_schema empty_tools_augmented
       = Inr (with_tools empty_tools_reply [with_selector list_instances_tool])
   \<and> with_tools empty_tools_reply [with_selector list_instances_tool] \<noteq> empty_tools_augmented"
proof -
  have t: "reply_tools worker_tools_reply = Some [decompile_tool, list_instances_tool]"
    by (simp add: reply_tools_def worker_tools_reply_def)
  have d: "add_binary_to_tool decompile_tool
             = Inr (JObj [(''name'', JStr ''decompile''),
                    (''inputSchema'', JObj [(''type'', JStr ''object''),
                        (''properties'', JObj [(''addr'', JObj [(''type'', JStr ''string'')]),
                                               (''binary'', binary_property)]),
                        (''required'', JArr [JStr ''addr''])])])"
    by (simp add: add_binary_to_tool_def decompile_tool_def)
  have a: "add_binary_param_to_schema worker_tools_reply = Inr worker_tools_augmented"
    by (simp add: add_binary_param_to_schema_unfold [OF t] d list_instances_tool_add)
       (simp add: tool_name_def list_instances_with_selector_def with_tools_def
        worker_tools_reply_def worker_tools_augmented_def)
  have e: "enumeration_entries [decompile_tool, list_instances_tool] = 1"
    by (simp add: enumeration_entries_def decompile_tool_def list_instances_tool_def)
  have p: "tool_property decompile_tool ''addr'' = Inr (JObj [(''type'', JStr ''string'')])"
    by (simp add: tool_property_def decompile_tool_def)
  have t0: "reply_tools empty_tools_reply = Some []"
    by (simp add: reply_tools_def empty_tools_reply_def)
  have a0: "add_binary_param_to_schema empty_tools_reply = Inr empty_tools_augmented"
    by (simp add: add_binary_param_to_schema_unfold [OF t0])
       (simp add: with_tools_def empty_tools_reply_def empty_tools_augmented_def)
  have e0: "enumeration_entries [] = 0"
    by (simp add: enumeration_entries_def)
  note w = augmentation [OF t a]
  note w0 = augmentation [OF t0 a0]
  from w declares_decompile
  have 1: "tool_property (with_selector decompile_tool) ''binary'' = Inr binary_property"
    by simp
  from w p have 2: "tool_property (with_selector decompile_tool) ''addr''
                      = Inr (JObj [(''type'', JStr ''string'')])"
    by simp
  from w e have 3: "add_binary_param_to_schema worker_tools_augmented = Inr worker_tools_augmented"
    by simp
  from w0 e0 have 4: "add_binary_param_to_schema empty_tools_augmented
       = Inr (with_tools empty_tools_reply [with_selector list_instances_tool])
     \<and> with_tools empty_tools_reply [with_selector list_instances_tool] \<noteq> empty_tools_augmented"
    by simp
  from t a declares_decompile 1 2 e 3 t0 a0 4 show ?thesis by simp
qed

text \<open>Augmentation succeeds on every reply whose tools are objects with a string name and,
  where present, an object as input schema and an object as its property set.\<close>

lemma mapE_succeeds:
  "\<forall>x\<in>set xs. \<exists>y. f x = Inr y \<Longrightarrow> \<exists>ys. mapE f xs = Inr ys"
  by (induction xs) auto

lemma well_formed_tool_iff:
  "well_formed_tool tool \<longleftrightarrow>
     (\<exists>t n. tool = JObj t \<and> map_of t ''name'' = Some (JStr n)
        \<and> (map_of t ''inputSchema'' = None
            \<or> (\<exists>s. map_of t ''inputSchema'' = Some (JObj s)
                  \<and> (map_of s ''properties'' = None
                      \<or> (\<exists>ps. map_of s ''properties'' = Some (JObj ps))))))"
  by (simp add: well_formed_tool_def split: json.split option.split)

lemma well_formed_tool_cases:
  assumes "well_formed_tool tool"
  obtains (no_schema) t n where "tool = JObj t" "map_of t ''name'' = Some (JStr n)"
      "map_of t ''inputSchema'' = None"
    | (no_properties) t n s where "tool = JObj t" "map_of t ''name'' = Some (JStr n)"
      "map_of t ''inputSchema'' = Some (JObj s)" "map_of s ''properties'' = None"
    | (properties) t n s ps where "tool = JObj t" "map_of t ''name'' = Some (JStr n)"
      "map_of t ''inputSchema'' = Some (JObj s)" "map_of s ''properties'' = Some (JObj ps)"
  using assms unfolding well_formed_tool_iff by blast

lemma well_formed_tool_add:
  assumes "well_formed_tool tool"
  shows "\<exists>tool'. add_binary_to_tool tool = Inr tool'"
  using assms
  by (cases rule: well_formed_tool_cases) (simp_all add: add_binary_to_tool_def)

lemma well_formed_tool_name:
  assumes "well_formed_tool tool"
  shows "\<exists>n. tool_name tool = Inr n"
  using assms
  by (cases rule: well_formed_tool_cases) (simp_all add: tool_name_def)

lemma augmentation_succeeds:
  assumes "reply_tools reply = Some ts"
    and "\<forall>tool\<in>set ts. well_formed_tool tool"
  shows "\<exists>reply'. add_binary_param_to_schema reply = Inr reply'"
proof -
  from assms(2) obtain ts1 where a: "mapE add_binary_to_tool ts = Inr ts1"
    using mapE_succeeds [of ts add_binary_to_tool] well_formed_tool_add by blast
  from assms(2) obtain names where n: "mapE tool_name ts = Inr names"
    using mapE_succeeds [of ts tool_name] well_formed_tool_name by blast
  from n have "mapE tool_name ts1 = Inr names"
    by (simp add: mapE_tool_name_after [OF a])
  with a show ?thesis
    by (simp add: add_binary_param_to_schema_unfold [OF assms(1)])
qed

end
